theory Spec2Isabelle
  imports Main "HOL-Library.Char_ord"
begin

section \<open>JavaScript strings and arrays\<close>

text \<open>
  The validator (src/dockerValidator.ts) works on offsets into a JavaScript string.
  Offsets are \<open>int\<close>, since the code uses \<open>-1\<close> as a value of its offset variables;
  a string is a \<open>char list\<close>.  \<open>charAt\<close> returns the empty string outside the string,
  a one-character string inside.
\<close>

abbreviation TAB :: char where "TAB \<equiv> CHR 0x09"

abbreviation LF :: char where "LF \<equiv> CHR 0x0A"

abbreviation CR :: char where "CR \<equiv> CHR 0x0D"

abbreviation DQUOTE :: char where "DQUOTE \<equiv> CHR 0x22"

abbreviation SQUOTE :: char where "SQUOTE \<equiv> CHR 0x27"

abbreviation BACKSLASH :: char where "BACKSLASH \<equiv> CHR 0x5C"

abbreviation BACKTICK :: char where "BACKTICK \<equiv> CHR 0x60"

definition charAt :: "string \<Rightarrow> int \<Rightarrow> string" where
  "charAt text i = (if 0 \<le> i \<and> i < int (length text) then [text ! nat i] else [])"

definition clampIndex :: "string \<Rightarrow> int \<Rightarrow> nat" where
  "clampIndex text i = min (nat i) (length text)"

text \<open>\<open>text.substring(a, b)\<close>: both ends are clamped to the string and swapped when \<open>a > b\<close>.\<close>

definition substring :: "string \<Rightarrow> int \<Rightarrow> int \<Rightarrow> string" where
  "substring text a b =
     (let a' = clampIndex text a; b' = clampIndex text b
      in take (max a' b' - min a' b') (drop (min a' b') text))"

text \<open>\<open>text.substring(a)\<close>.\<close>

definition substringFrom :: "string \<Rightarrow> int \<Rightarrow> string" where
  "substringFrom text a = drop (clampIndex text a) text"

text \<open>
  \<open>toUpperCase\<close> is a function of the JavaScript runtime, with a table of its own for
  the letters outside ASCII: the scan of the lines takes it as an argument.
  \<open>asciiUpperCase\<close> is what it gives for a string of ASCII characters; the examples,
  whose texts are ASCII, are run with it.
\<close>

definition asciiUpperChar :: "char \<Rightarrow> char" where
  "asciiUpperChar c =
     (case map_of (zip ''abcdefghijklmnopqrstuvwxyz'' ''ABCDEFGHIJKLMNOPQRSTUVWXYZ'') c of
        None \<Rightarrow> c | Some u \<Rightarrow> u)"

definition asciiUpperCase :: "string \<Rightarrow> string" where
  "asciiUpperCase s = map asciiUpperChar s"

text \<open>\<open>array.indexOf(x)\<close>: the first index of \<open>x\<close>, or \<open>-1\<close>.\<close>

fun indexOf :: "'a list \<Rightarrow> 'a \<Rightarrow> int" where
  "indexOf [] x = -1"
| "indexOf (y # ys) x =
     (if y = x then 0 else (let r = indexOf ys x in if r = -1 then -1 else r + 1))"

text \<open>
  \<open>text.replace(pattern, replacement)\<close> with a string pattern: the first occurrence of the
  pattern is replaced, and in the replacement \<open>$$\<close>, \<open>$&\<close>, \<open>$`\<close> and \<open>$'\<close> stand for a
  dollar sign, the matched text, the text before it and the text after it.
\<close>

fun findFirst :: "string \<Rightarrow> string \<Rightarrow> (string \<times> string) option" where
  "findFirst pat [] = (if pat = [] then Some ([], []) else None)"
| "findFirst pat (c # cs) =
     (if take (length pat) (c # cs) = pat then Some ([], drop (length pat) (c # cs))
      else (case findFirst pat cs of None \<Rightarrow> None | Some (b, a) \<Rightarrow> Some (c # b, a)))"

fun getSubstitution :: "string \<Rightarrow> string \<Rightarrow> string \<Rightarrow> string \<Rightarrow> string" where
  "getSubstitution m b a [] = []"
| "getSubstitution m b a [c] = [c]"
| "getSubstitution m b a (c # d # rest) =
     (if c = CHR ''$'' \<and> d = CHR ''$'' then CHR ''$'' # getSubstitution m b a rest
      else if c = CHR ''$'' \<and> d = CHR ''&'' then m @ getSubstitution m b a rest
      else if c = CHR ''$'' \<and> d = BACKTICK then b @ getSubstitution m b a rest
      else if c = CHR ''$'' \<and> d = SQUOTE then a @ getSubstitution m b a rest
      else c # getSubstitution m b a (d # rest))"

definition replace :: "string \<Rightarrow> string \<Rightarrow> string \<Rightarrow> string" where
  "replace text pat replacement =
     (case findFirst pat text of
        None \<Rightarrow> text
      | Some (b, a) \<Rightarrow> b @ getSubstitution pat b a replacement @ a)"

section \<open>Positions, documents and diagnostics\<close>

record Position =
  line :: int
  character :: int

record Range =
  range_start :: Position
  range_end :: Position

text \<open>
  The text document of the editor protocol library: the validator reads its text and
  converts between offsets and positions through it.  The two conversions are taken as
  they are given.
\<close>

record TextDocument =
  getText :: string
  positionAt :: "int \<Rightarrow> Position"
  offsetAt :: "Position \<Rightarrow> int"

datatype ValidationCode =
  DEFAULT | LOWERCASE | EXTRA_ARGUMENT | NO_SOURCE_IMAGE | MISSING_ARGUMENT
  | INVALID_ESCAPE_DIRECTIVE | INVALID_PORT | INVALID_STOPSIGNAL | UNKNOWN_DIRECTIVE
  | UNKNOWN_INSTRUCTION | DEPRECATED_MAINTAINER

datatype ValidationSeverity = IGNORE | WARNING | ERROR

datatype DiagnosticSeverity = Error | Warning

record ValidatorSettings =
  deprecatedMaintainer :: ValidationSeverity

text \<open>A message is \<open>None\<close> where the JavaScript value is \<open>undefined\<close>.\<close>

record Diagnostic =
  range :: Range
  message :: "string option"
  severity :: DiagnosticSeverity
  code :: ValidationCode
  source :: string

definition dockerProblems :: "(string \<times> string) list" where
  "dockerProblems =
     [(''directiveUnknown'', ''Unknown directive: ${0}''),
      (''directiveEscapeInvalid'', ''invalid ESCAPE '' @ [SQUOTE] @ ''${0}'' @ [SQUOTE]
          @ ''. Must be '' @ [BACKTICK] @ '' or '' @ [BACKSLASH]),
      (''noSourceImage'', ''No source image provided with '' @ [BACKTICK] @ ''FROM'' @ [BACKTICK]),
      (''invalidPort'', ''Invalid containerPort: ${0}''),
      (''invalidStopSignal'', ''Invalid stop signal''),
      (''instructionExtraArgument'', ''Instruction has an extra argument''),
      (''instructionMissingArgument'', ''Instruction has no arguments''),
      (''instructionUnknown'', ''Unknown instruction: ${0}''),
      (''instructionCasing'', ''Instructions should be written in uppercase letters''),
      (''deprecatedMaintainer'', ''MAINTAINER has been deprecated''),
      (''unexpectedToken'', ''Unexpected token'')]"

text \<open>\<open>formatMessage\<close> is only applied to templates that the table holds.\<close>

definition formatMessage :: "string option \<Rightarrow> string \<Rightarrow> string option" where
  "formatMessage text variable = map_option (\<lambda>t. replace t ''${0}'' variable) text"

definition getDiagnosticMessage_DirectiveUnknown :: "string \<Rightarrow> string option" where
  "getDiagnosticMessage_DirectiveUnknown directive =
     formatMessage (map_of dockerProblems ''directiveUnknown'') directive"

definition getDiagnosticMessage_DirectiveEscapeInvalid :: "string \<Rightarrow> string option" where
  "getDiagnosticMessage_DirectiveEscapeInvalid v =
     formatMessage (map_of dockerProblems ''directiveEscapeInvalid'') v"

definition getDiagnosticMessage_NoSourceImage :: "string option" where
  "getDiagnosticMessage_NoSourceImage = map_of dockerProblems ''noSourceImage''"

definition getDiagnosticMessage_InvalidPort :: "string \<Rightarrow> string option" where
  "getDiagnosticMessage_InvalidPort port =
     formatMessage (map_of dockerProblems ''invalidPort'') port"

definition getDiagnosticMessage_InvalidStopsignal :: "string option" where
  "getDiagnosticMessage_InvalidStopsignal = map_of dockerProblems ''invalidStopsignal''"

definition getDiagnosticMessage_InstructionExtraArgument :: "string option" where
  "getDiagnosticMessage_InstructionExtraArgument = map_of dockerProblems ''instructionExtraArgument''"

definition getDiagnosticMessage_InstructionMissingArgument :: "string option" where
  "getDiagnosticMessage_InstructionMissingArgument =
     map_of dockerProblems ''instructionMissingArgument''"

definition getDiagnosticMessage_InstructionUnknown :: "string \<Rightarrow> string option" where
  "getDiagnosticMessage_InstructionUnknown instruction =
     formatMessage (map_of dockerProblems ''instructionUnknown'') instruction"

definition getDiagnosticMessage_InstructionCasing :: "string option" where
  "getDiagnosticMessage_InstructionCasing = map_of dockerProblems ''instructionCasing''"

definition getDiagnosticMessage_DeprecatedMaintainer :: "string option" where
  "getDiagnosticMessage_DeprecatedMaintainer = map_of dockerProblems ''deprecatedMaintainer''"

definition getDiagnosticMessage_UnexpectedToken :: "string option" where
  "getDiagnosticMessage_UnexpectedToken = map_of dockerProblems ''unexpectedToken''"

text \<open>
  \<open>createDiagnostic\<close>: an absent code, and the code \<open>DEFAULT\<close> (the number 0), both give
  \<open>DEFAULT\<close>.
\<close>

definition createDiagnostic ::
  "TextDocument \<Rightarrow> DiagnosticSeverity \<Rightarrow> int \<Rightarrow> int \<Rightarrow> string option
     \<Rightarrow> ValidationCode option \<Rightarrow> Diagnostic" where
  "createDiagnostic document sev s e description c =
     \<lparr> range = \<lparr> range_start = positionAt document s, range_end = positionAt document e \<rparr>,
       message = description,
       severity = sev,
       code = (case c of None \<Rightarrow> DEFAULT | Some c' \<Rightarrow> c'),
       source = ''dockerfile-lsp'' \<rparr>"

definition createError ::
  "TextDocument \<Rightarrow> int \<Rightarrow> int \<Rightarrow> string option \<Rightarrow> ValidationCode option \<Rightarrow> Diagnostic" where
  "createError document s e description c = createDiagnostic document Error s e description c"

definition createWarning ::
  "TextDocument \<Rightarrow> int \<Rightarrow> int \<Rightarrow> string option \<Rightarrow> ValidationCode option \<Rightarrow> Diagnostic" where
  "createWarning document s e description c = createDiagnostic document Warning s e description c"

definition createUnknownDirective :: "TextDocument \<Rightarrow> int \<Rightarrow> int \<Rightarrow> string \<Rightarrow> Diagnostic" where
  "createUnknownDirective document s e directive =
     createError document s e (getDiagnosticMessage_DirectiveUnknown directive)
       (Some UNKNOWN_DIRECTIVE)"

definition createInvalidEscapeDirective :: "TextDocument \<Rightarrow> int \<Rightarrow> int \<Rightarrow> string \<Rightarrow> Diagnostic" where
  "createInvalidEscapeDirective document s e v =
     createError document s e (getDiagnosticMessage_DirectiveEscapeInvalid v)
       (Some INVALID_ESCAPE_DIRECTIVE)"

definition createInvalidPort :: "TextDocument \<Rightarrow> int \<Rightarrow> int \<Rightarrow> string \<Rightarrow> Diagnostic" where
  "createInvalidPort document s e port =
     createError document s e (getDiagnosticMessage_InvalidPort port) (Some INVALID_PORT)"

definition createInvalidStopSignal :: "TextDocument \<Rightarrow> int \<Rightarrow> int \<Rightarrow> Diagnostic" where
  "createInvalidStopSignal document s e =
     createError document s e getDiagnosticMessage_InvalidStopsignal (Some INVALID_STOPSIGNAL)"

definition createMissingArgument :: "TextDocument \<Rightarrow> int \<Rightarrow> int \<Rightarrow> Diagnostic" where
  "createMissingArgument document s e =
     createError document s e getDiagnosticMessage_InstructionMissingArgument
       (Some MISSING_ARGUMENT)"

definition createExtraArgument :: "TextDocument \<Rightarrow> int \<Rightarrow> int \<Rightarrow> Diagnostic" where
  "createExtraArgument document s e =
     createError document s e getDiagnosticMessage_InstructionExtraArgument (Some EXTRA_ARGUMENT)"

definition createUnexpectedToken :: "TextDocument \<Rightarrow> int \<Rightarrow> int \<Rightarrow> Diagnostic" where
  "createUnexpectedToken document s e =
     createError document s e getDiagnosticMessage_UnexpectedToken None"

definition createNoSourceImage :: "TextDocument \<Rightarrow> int \<Rightarrow> int \<Rightarrow> Diagnostic" where
  "createNoSourceImage document s e =
     createError document s e getDiagnosticMessage_NoSourceImage (Some NO_SOURCE_IMAGE)"

definition createUnknownInstruction :: "TextDocument \<Rightarrow> int \<Rightarrow> int \<Rightarrow> string \<Rightarrow> Diagnostic" where
  "createUnknownInstruction document s e instruction =
     createError document s e (getDiagnosticMessage_InstructionUnknown instruction)
       (Some UNKNOWN_INSTRUCTION)"

definition createUppercaseInstruction :: "TextDocument \<Rightarrow> int \<Rightarrow> int \<Rightarrow> Diagnostic" where
  "createUppercaseInstruction document s e =
     createWarning document s e getDiagnosticMessage_InstructionCasing (Some LOWERCASE)"

text \<open>\<open>createMaintainerDeprecated\<close> returns \<open>null\<close> (here \<open>None\<close>) when the setting is to ignore.\<close>

definition createMaintainerDeprecated ::
  "ValidatorSettings \<Rightarrow> TextDocument \<Rightarrow> int \<Rightarrow> int \<Rightarrow> Diagnostic option" where
  "createMaintainerDeprecated settings document s e =
     (let sev = (if deprecatedMaintainer settings = ERROR then Some Error
                 else if deprecatedMaintainer settings = WARNING then Some Warning
                 else None)
      in case sev of
           Some sv \<Rightarrow> Some (createDiagnostic document sv s e
                             getDiagnosticMessage_DeprecatedMaintainer (Some DEPRECATED_MAINTAINER))
         | None \<Rightarrow> None)"

section \<open>The parsed document\<close>

text \<open>
  The parser's result is an input of the validator: the directive of line 0, if any, and
  the instructions in source order.  The fields are the accessors the validator calls:
  \<open>dir_name\<close> is \<open>getDirective()\<close>, \<open>dir_value\<close> is \<open>getValue()\<close>, and the three ranges
  are \<open>getNameRange()\<close>, \<open>getValueRange()\<close> and \<open>getRange()\<close>; \<open>arg_value\<close> and
  \<open>arg_range\<close> are an argument's \<open>getValue()\<close> and \<open>getRange()\<close>.
\<close>

record Directive =
  dir_name :: string
  dir_value :: string
  dir_nameRange :: Range
  dir_valueRange :: Range
  dir_range :: Range

record Argument =
  arg_value :: string
  arg_range :: Range

record Instruction =
  getKeyword :: string
  getInstruction :: string
  getTextContent :: string
  getInstructionRange :: Range
  getArgments :: "string \<Rightarrow> Argument list"

record Dockerfile =
  getDirective :: "Directive option"
  getInstructions :: "Instruction list"

text \<open>Modelled from the spec: the constant \<open>DIRECTIVE_ESCAPE\<close> of docker.ts, the name of
  the only directive that is recognised.\<close>

definition DIRECTIVE_ESCAPE :: string where
  "DIRECTIVE_ESCAPE = ''escape''"

text \<open>Modelled from the spec: \<open>Util.isWhitespace\<close> of docker.ts, the generic whitespace
  that the scans skip: a space, a tab or a line break character.\<close>

definition isWhitespace :: "string \<Rightarrow> bool" where
  "isWhitespace c = (c = '' '' \<or> c = [TAB] \<or> c = [CR] \<or> c = [LF])"

section \<open>The escape directive\<close>

definition shouldSkipNewline :: "string \<Rightarrow> int \<Rightarrow> string \<Rightarrow> bool" where
  "shouldSkipNewline text offset escape =
     (charAt text offset = escape \<and> offset \<noteq> int (length text) - 1
      \<and> (charAt text (offset + 1) = [CR] \<or> charAt text (offset + 1) = [LF]))"

record Parsed =
  escape :: string
  dc :: int

definition parseDirective ::
  "Dockerfile \<Rightarrow> TextDocument \<Rightarrow> Diagnostic list \<Rightarrow> Parsed \<times> Diagnostic list" where
  "parseDirective dockerfile document problems =
     (case getDirective dockerfile of
        None \<Rightarrow> (\<lparr> escape = [BACKSLASH], dc = 0 \<rparr>, problems)
      | Some directive \<Rightarrow>
          (let directiveName = dir_name directive;
               v = dir_value directive;
               problems' =
                 (if directiveName \<noteq> DIRECTIVE_ESCAPE then
                    problems @ [createUnknownDirective document
                       (offsetAt document (range_start (dir_nameRange directive)))
                       (offsetAt document (range_end (dir_nameRange directive))) directiveName]
                  else if v \<noteq> [BACKSLASH] \<and> v \<noteq> [BACKTICK] \<and> v \<noteq> [] then
                    problems @ [createInvalidEscapeDirective document
                       (offsetAt document (range_start (dir_valueRange directive)))
                       (offsetAt document (range_end (dir_valueRange directive))) v]
                  else problems)
           in (\<lparr> escape = (if v = [BACKSLASH] \<or> v = [BACKTICK] then v else [BACKSLASH]),
                 dc = offsetAt document (range_end (dir_range directive)) \<rparr>, problems')))"

section \<open>The checks on the parsed instructions\<close>

text \<open>The loop of \<open>checkArguments\<close>; its value is the final value of \<open>missing\<close>.\<close>

function checkArguments_loop :: "string \<Rightarrow> string \<Rightarrow> int \<Rightarrow> bool" where
  "checkArguments_loop args escapeChar i =
     (if i < int (length args) then
        (if isWhitespace (charAt args i) then checkArguments_loop args escapeChar (i + 1)
         else if charAt args i = escapeChar then
           (if charAt args (i + 1) = [CR] \<or> charAt args (i + 1) = [LF]
            then checkArguments_loop args escapeChar (i + 1 + 1)
            else False)
         else False)
      else True)"
  by pat_completeness auto
termination
  by (relation "measure (\<lambda>(args, escapeChar, i). nat (int (length args) - i))") auto

definition checkArguments ::
  "TextDocument \<Rightarrow> string \<Rightarrow> Instruction \<Rightarrow> Diagnostic list \<Rightarrow> bool \<times> Diagnostic list" where
  "checkArguments document escapeChar instruction problems =
     (let r = getInstructionRange instruction;
          args = substringFrom (getTextContent instruction)
                   (int (length (getInstruction instruction)));
          missing = checkArguments_loop args escapeChar 0
      in if missing then
           (False, problems @ [createMissingArgument document
                (offsetAt document (range_start r)) (offsetAt document (range_end r))])
         else (True, problems))"

text \<open>
  \<open>checkSingleArgument\<close> takes the predicate and, optionally, the function that builds the
  diagnostic of a token that fails it; calling the absent function is a \<open>TypeError\<close>.
  The function is called with two offsets in the single-argument mode and with the token's
  value as well otherwise.
\<close>

datatype error = TypeError

type_synonym createFn = "int \<Rightarrow> int \<Rightarrow> string option \<Rightarrow> Diagnostic"

fun checkEachArgument ::
  "TextDocument \<Rightarrow> (string \<Rightarrow> bool) \<Rightarrow> createFn option \<Rightarrow> Argument list \<Rightarrow> Diagnostic list
     \<Rightarrow> error + Diagnostic list" where
  "checkEachArgument document valid create [] problems = Inr problems"
| "checkEachArgument document valid create (arg # args) problems =
     (if \<not> valid (arg_value arg) then
        (case create of
           None \<Rightarrow> Inl TypeError
         | Some f \<Rightarrow> checkEachArgument document valid create args
             (problems @ [f (offsetAt document (range_start (arg_range arg)))
                            (offsetAt document (range_end (arg_range arg)))
                            (Some (arg_value arg))]))
      else checkEachArgument document valid create args problems)"

definition checkSingleArgument ::
  "TextDocument \<Rightarrow> string \<Rightarrow> Instruction \<Rightarrow> Diagnostic list \<Rightarrow> bool \<Rightarrow> (string \<Rightarrow> bool)
     \<Rightarrow> createFn option \<Rightarrow> error + Diagnostic list" where
  "checkSingleArgument document escapeChar instruction problems singleOnly valid create =
     (case getArgments instruction escapeChar of
        [] \<Rightarrow> Inr problems
      | arg0 # rest \<Rightarrow>
          (if singleOnly then
             (case (if \<not> valid (arg_value arg0) then
                      (case create of
                         None \<Rightarrow> Inl TypeError
                       | Some f \<Rightarrow> Inr (problems @
                           [f (offsetAt document (range_start (arg_range arg0)))
                              (offsetAt document (range_end (arg_range arg0))) None]))
                    else Inr problems) of
                Inl e \<Rightarrow> Inl e
              | Inr problems' \<Rightarrow>
                  (case rest of
                     [] \<Rightarrow> Inr problems'
                   | arg1 # _ \<Rightarrow> Inr (problems' @ [createExtraArgument document
                        (offsetAt document (range_start (arg_range arg1)))
                        (offsetAt document (range_end (arg_range arg1)))])))
           else checkEachArgument document valid create (arg0 # rest) problems))"

text \<open>The three predicates that \<open>validate\<close> passes to \<open>checkSingleArgument\<close>.\<close>

definition alwaysValid :: "string \<Rightarrow> bool" where
  "alwaysValid argument = True"

fun allDigits :: "string \<Rightarrow> bool" where
  "allDigits [] = True"
| "allDigits (c # cs) = (if c < CHR ''0'' \<or> CHR ''9'' < c then False else allDigits cs)"

definition stopSignalValid :: "string \<Rightarrow> bool" where
  "stopSignalValid argument = (if take 3 argument = ''SIG'' then True else allDigits argument)"

fun portCharacters :: "string \<Rightarrow> bool" where
  "portCharacters [] = True"
| "portCharacters (c # cs) =
     (if c \<noteq> CHR ''-'' \<and> (c < CHR ''0'' \<or> CHR ''9'' < c) then False else portCharacters cs)"

definition exposeValid :: "string \<Rightarrow> bool" where
  "exposeValid argument =
     (if portCharacters argument then
        charAt argument 0 \<noteq> ''-'' \<and> charAt argument (int (length argument) - 1) \<noteq> ''-''
      else False)"

text \<open>The body of the loop over the instructions in \<open>validate\<close>.\<close>

definition validateInstruction ::
  "ValidatorSettings \<Rightarrow> string list \<Rightarrow> TextDocument \<Rightarrow> string \<Rightarrow> Instruction \<Rightarrow> Diagnostic list
     \<Rightarrow> error + Diagnostic list" where
  "validateInstruction settings keywords document esc instruction problems =
     (let keyword = getKeyword instruction;
          r = getInstructionRange instruction
      in if indexOf keywords keyword = -1 then
           Inr (problems @ [createUnknownInstruction document
                  (offsetAt document (range_start r)) (offsetAt document (range_end r)) keyword])
         else if keyword \<noteq> getInstruction instruction then
           Inr (problems @ [createUppercaseInstruction document
                  (offsetAt document (range_start r)) (offsetAt document (range_end r))])
         else
           (let problems1 =
                  (if keyword = ''MAINTAINER'' then
                     (case createMaintainerDeprecated settings document
                             (offsetAt document (range_start r)) (offsetAt document (range_start r)) of
                        Some diagnostic \<Rightarrow> problems @ [diagnostic]
                      | None \<Rightarrow> problems)
                   else problems);
                (present, problems2) = checkArguments document esc instruction problems1
            in if present then
                 (if keyword = ''FROM'' \<or> keyword = ''WORKDIR'' \<or> keyword = ''USER'' then
                    checkSingleArgument document esc instruction problems2 True alwaysValid None
                  else if keyword = ''STOPSIGNAL'' then
                    checkSingleArgument document esc instruction problems2 True stopSignalValid
                      (Some (\<lambda>s e v. createInvalidStopSignal document s e))
                  else if keyword = ''EXPOSE'' then
                    checkSingleArgument document esc instruction problems2 False exposeValid
                      (Some (\<lambda>s e v. createInvalidPort document s e
                                        (case v of Some port \<Rightarrow> port | None \<Rightarrow> ''undefined'')))
                  else Inr problems2)
               else Inr problems2))"

fun instructionLoop ::
  "ValidatorSettings \<Rightarrow> string list \<Rightarrow> TextDocument \<Rightarrow> string \<Rightarrow> Instruction list
     \<Rightarrow> Diagnostic list \<Rightarrow> error + Diagnostic list" where
  "instructionLoop settings keywords document esc [] problems = Inr problems"
| "instructionLoop settings keywords document esc (instruction # rest) problems =
     (case validateInstruction settings keywords document esc instruction problems of
        Inl e \<Rightarrow> Inl e
      | Inr problems' \<Rightarrow> instructionLoop settings keywords document esc rest problems')"

text \<open>The check of the first instruction, at the start of \<open>validate\<close>.\<close>

definition noSourceImageCheck ::
  "TextDocument \<Rightarrow> Instruction list \<Rightarrow> Diagnostic list \<Rightarrow> Diagnostic list" where
  "noSourceImageCheck document instructions problems =
     (case instructions of
        [] \<Rightarrow> problems @ [createNoSourceImage document 0 0]
      | first # _ \<Rightarrow>
          (if getKeyword first \<noteq> ''FROM'' then
             problems @ [createNoSourceImage document
                (offsetAt document (range_start (getInstructionRange first)))
                (offsetAt document (range_end (getInstructionRange first)))]
           else problems))"

section \<open>The structural scanner\<close>

text \<open>
  The inner loops of the scan of \<open>validate\<close>.  Each runs an offset up to the end of the
  text; \<open>None\<close> says that the loop reached the end of the text.
\<close>

text \<open>The scan of a comment: the offset of the first line break character from \<open>j\<close> on.\<close>

function commentLoop :: "string \<Rightarrow> int \<Rightarrow> int option" where
  "commentLoop text j =
     (if j < int (length text) then
        (if charAt text j = [CR] \<or> charAt text j = [LF] then Some j
         else commentLoop text (j + 1))
      else None)"
  by pat_completeness auto
termination
  by (relation "measure (\<lambda>(text, j). nat (int (length text) - j))") auto

text \<open>
  The scan to the end of the line after \<open>MAINTAINER\<close>, \<open>FROM\<close>, \<open>EXPOSE\<close>, \<open>STOPSIGNAL\<close>,
  \<open>USER\<close> and \<open>WORKDIR\<close>, and, with the same code, after a word that the keywords do not
  hold: an escape character before a line break character skips that character.
\<close>

function skipLine :: "string \<Rightarrow> string \<Rightarrow> int \<Rightarrow> int option" where
  "skipLine text esc k =
     (if k < int (length text) then
        (if shouldSkipNewline text k esc then skipLine text esc (k + 1 + 1)
         else if charAt text k = [CR] \<or> charAt text k = [LF] then Some k
         else skipLine text esc (k + 1))
      else None)"
  by pat_completeness auto
termination
  by (relation "measure (\<lambda>(text, esc, k). nat (int (length text) - k))") auto

text \<open>
  After an escape character and the line break character behind it, the other loops
  also step over the line feed of a carriage return and line feed pair.
\<close>

definition afterContinuation :: "string \<Rightarrow> int \<Rightarrow> int" where
  "afterContinuation text i =
     (let i1 = i + 1
      in if charAt text i1 = [CR] \<and> charAt text (i1 + 1) = [LF] then i1 + 1 else i1)"

text \<open>The scan to the end of the line after any other word of the keywords (the flag
  \<open>check\<close> that the loop sets is never read).\<close>

function checkLine :: "string \<Rightarrow> string \<Rightarrow> int \<Rightarrow> int option" where
  "checkLine text esc k =
     (if k < int (length text) then
        (if shouldSkipNewline text k esc then checkLine text esc (afterContinuation text k + 1)
         else if charAt text k = [CR] \<or> charAt text k = [LF] then Some k
         else checkLine text esc (k + 1))
      else None)"
  by pat_completeness auto
termination
  by (relation "measure (\<lambda>(text, esc, k). nat (int (length text) - k))")
     (auto simp: afterContinuation_def Let_def)

text \<open>
  The loop that collects the first word of a line, from \<open>j = i + 1\<close>: it runs off the end
  of the text (\<open>Exhausted\<close>), makes \<open>validate\<close> return (\<open>Returned\<close>), or ends the word at
  the offset \<open>j\<close> (the variable \<open>last\<close> that the loop sets is never read).
\<close>

datatype firstWord = Exhausted | Returned | FirstWord string int

function wordLoop :: "string \<Rightarrow> string \<Rightarrow> string \<Rightarrow> int \<Rightarrow> int \<Rightarrow> firstWord" where
  "wordLoop text esc instruction start j =
     (if j < int (length text) then
        (if shouldSkipNewline text j esc then
           (if afterContinuation text j = int (length text) - 1 then Returned
            else wordLoop text esc (instruction @ substring text start j)
                   (afterContinuation text j + 1) (afterContinuation text j + 1))
         else if isWhitespace (charAt text j) \<or> j = int (length text) - 1 then
           (if j = int (length text) - 1 then Returned
            else FirstWord
                   (if j = int (length text) - 1 \<and> \<not> isWhitespace (charAt text j)
                    then instruction @ substring text start (j + 1)
                    else instruction @ substring text start j) j)
         else wordLoop text esc instruction start (j + 1))
      else Exhausted)"
  by pat_completeness auto
termination
  by (relation "measure (\<lambda>(text, esc, instruction, start, j). nat (int (length text) - j))")
     (auto simp: afterContinuation_def Let_def)

section \<open>The JSON array of a VOLUME instruction\<close>

text \<open>
  The loop of \<open>parseJSON\<close>, with its variables \<open>inString\<close>, \<open>end\<close> (here \<open>ended\<close>),
  \<open>last\<close> (here \<open>lastOffset\<close>), \<open>expectComma\<close> and \<open>flagged\<close>; the result is the returned offset and the
  list of problems.
\<close>

function parseJSON_loop ::
  "TextDocument \<Rightarrow> string \<Rightarrow> string \<Rightarrow> bool \<Rightarrow> bool \<Rightarrow> int \<Rightarrow> bool \<Rightarrow> bool \<Rightarrow> int
     \<Rightarrow> Diagnostic list \<Rightarrow> int \<times> Diagnostic list" where
  "parseJSON_loop document esc text inString ended lastOffset expectComma flagged i problems =
     (if i < int (length text) then
        (if \<not> inString \<and> shouldSkipNewline text i esc then
           parseJSON_loop document esc text inString ended lastOffset expectComma flagged
             (afterContinuation text i + 1) problems
         else if charAt text i = [DQUOTE] then
           (if expectComma \<and> \<not> flagged then
              (i, problems @ [createUnexpectedToken document i (i + 1)])
            else parseJSON_loop document esc text (\<not> inString) ended i (\<not> \<not> inString) flagged
                   (i + 1) problems)
         else if charAt text i = '' '' \<or> charAt text i = [TAB] then
           parseJSON_loop document esc text inString ended lastOffset expectComma flagged (i + 1) problems
         else if charAt text i = '']'' then
           parseJSON_loop document esc text inString (if \<not> inString then True else ended) i
             expectComma flagged (i + 1) problems
         else if charAt text i = [CR] \<or> charAt text i = [LF] then
           (i, if \<not> ended \<and> \<not> flagged
               then problems @ [createUnexpectedToken document lastOffset (lastOffset + 1)]
               else problems)
         else if charAt text i = '','' then
           parseJSON_loop document esc text inString ended i
             (if expectComma then False else expectComma) flagged (i + 1) problems
         else if \<not> inString \<and> \<not> flagged then
           parseJSON_loop document esc text inString ended i expectComma True (i + 1)
             (problems @ [createUnexpectedToken document i (i + 1)])
         else
           parseJSON_loop document esc text inString ended i expectComma flagged (i + 1) problems)
      else
        (lastOffset + 1,
         if \<not> flagged then
           (if inString \<or> \<not> ended
            then problems @ [createUnexpectedToken document lastOffset (lastOffset + 1)]
            else problems)
         else problems))"
  by pat_completeness auto
termination
  by (relation "measure (\<lambda>(document, esc, text, inString, ended, lastOffset, expectComma, flagged,
                            i, problems). nat (int (length text) - i))")
     (auto simp: afterContinuation_def Let_def)

definition parseJSON ::
  "TextDocument \<Rightarrow> string \<Rightarrow> int \<Rightarrow> string \<Rightarrow> Diagnostic list \<Rightarrow> int \<times> Diagnostic list" where
  "parseJSON document esc offset text problems =
     parseJSON_loop document esc text False False (-1) False False (offset + 1) problems"

function parseVOLUME_loop ::
  "TextDocument \<Rightarrow> string \<Rightarrow> string \<Rightarrow> bool \<Rightarrow> int \<Rightarrow> Diagnostic list
     \<Rightarrow> int \<times> Diagnostic list" where
  "parseVOLUME_loop document esc text json i problems =
     (if i < int (length text) then
        (if shouldSkipNewline text i esc then
           parseVOLUME_loop document esc text json (afterContinuation text i + 1) problems
         else if charAt text i = [CR] \<or> charAt text i = [LF] then (i, problems)
         else if charAt text i = ''['' \<and> json then parseJSON document esc i text problems
         else if charAt text i \<noteq> '' '' \<and> charAt text i \<noteq> [TAB] then
           parseVOLUME_loop document esc text False (i + 1) problems
         else parseVOLUME_loop document esc text json (i + 1) problems)
      else (int (length text), problems))"
  by pat_completeness auto
termination
  by (relation "measure (\<lambda>(document, esc, text, json, i, problems). nat (int (length text) - i))")
     (auto simp: afterContinuation_def Let_def)

definition parseVOLUME ::
  "TextDocument \<Rightarrow> string \<Rightarrow> int \<Rightarrow> int \<Rightarrow> string \<Rightarrow> Diagnostic list \<Rightarrow> int \<times> Diagnostic list" where
  "parseVOLUME document esc lineStart offset text problems =
     parseVOLUME_loop document esc text True (offset + 1) problems"

section \<open>The scan of the lines\<close>

text \<open>
  One run of the body of the loop \<open>lineCheck\<close> at the offset \<open>i\<close>: either \<open>validate\<close>
  returns the problems, or the loop goes on (\<open>continue lineCheck\<close>, which then adds one to
  \<open>i\<close>) with a new value of \<open>i\<close>.
\<close>

datatype scan = Return "Diagnostic list" | Continue int "Diagnostic list"

definition lineEnd :: "int option \<Rightarrow> Diagnostic list \<Rightarrow> scan" where
  "lineEnd r problems = (case r of Some k \<Rightarrow> Continue k problems | None \<Rightarrow> Return problems)"

definition dispatch ::
  "TextDocument \<Rightarrow> string list \<Rightarrow> string \<Rightarrow> string \<Rightarrow> int \<Rightarrow> string \<Rightarrow> int \<Rightarrow> Diagnostic list
     \<Rightarrow> scan" where
  "dispatch document keywords esc text i uppercaseInstruction j problems =
     (if uppercaseInstruction = ''MAINTAINER'' \<or> uppercaseInstruction = ''FROM''
         \<or> uppercaseInstruction = ''EXPOSE'' \<or> uppercaseInstruction = ''STOPSIGNAL''
         \<or> uppercaseInstruction = ''USER'' \<or> uppercaseInstruction = ''WORKDIR'' then
        lineEnd (skipLine text esc (j + 1)) problems
      else if uppercaseInstruction = ''VOLUME'' then
        (case parseVOLUME document esc i j text problems of
           (jump, problems') \<Rightarrow> Continue jump problems')
      else if indexOf keywords uppercaseInstruction = -1 then
        lineEnd (skipLine text esc (j + 1)) problems
      else lineEnd (checkLine text esc (j + 1)) problems)"

definition scanLine ::
  "(string \<Rightarrow> string) \<Rightarrow> TextDocument \<Rightarrow> string list \<Rightarrow> string \<Rightarrow> string \<Rightarrow> int \<Rightarrow> Diagnostic list \<Rightarrow> scan" where
  "scanLine toUpperCase document keywords esc text i problems =
     (if isWhitespace (charAt text i) then Continue i problems
      else if charAt text i = ''#'' then lineEnd (commentLoop text (i + 1)) problems
      else
        (case wordLoop text esc [] i (i + 1) of
           Exhausted \<Rightarrow> Continue i problems
         | Returned \<Rightarrow> Return problems
         | FirstWord instruction j \<Rightarrow>
             dispatch document keywords esc text i (toUpperCase instruction) j problems))"

text \<open>
  The loop \<open>lineCheck\<close>.  It can set \<open>i\<close> backwards, so it is run with fuel, one unit for
  each run of its body: \<open>None\<close> says that the loop has not ended within the fuel.
\<close>

fun lineCheck ::
  "nat \<Rightarrow> (string \<Rightarrow> string) \<Rightarrow> TextDocument \<Rightarrow> string list \<Rightarrow> string \<Rightarrow> string \<Rightarrow> int \<Rightarrow> Diagnostic list
     \<Rightarrow> Diagnostic list option" where
  "lineCheck 0 toUpperCase document keywords esc text i problems = None"
| "lineCheck (Suc fuel) toUpperCase document keywords esc text i problems =
     (if i < int (length text) then
        (case scanLine toUpperCase document keywords esc text i problems of
           Return problems' \<Rightarrow> Some problems'
         | Continue i' problems' \<Rightarrow> lineCheck fuel toUpperCase document keywords esc text (i' + 1) problems')
      else Some problems)"

text \<open>The loops are unfolded by hand in the proofs.\<close>

declare checkArguments_loop.simps [simp del]

declare commentLoop.simps [simp del]

declare skipLine.simps [simp del]

declare checkLine.simps [simp del]

declare wordLoop.simps [simp del]

declare parseJSON_loop.simps [simp del]

declare parseVOLUME_loop.simps [simp del]

text \<open>
  \<open>validate\<close>: the parser's result for the document is the argument \<open>dockerfile\<close>.
  \<open>documentPass\<close> is its first part, up to the end of the loop over the instructions.
  The result of \<open>validate\<close> is \<open>None\<close> when the scan of the lines has not ended within
  the fuel, and \<open>Some (Inl TypeError)\<close> when a call raised.
\<close>

definition documentPass ::
  "ValidatorSettings \<Rightarrow> string list \<Rightarrow> TextDocument \<Rightarrow> Dockerfile
     \<Rightarrow> Parsed \<times> (error + Diagnostic list)" where
  "documentPass settings keywords document dockerfile =
     (case parseDirective dockerfile document [] of
        (parsed, problems0) \<Rightarrow>
          (parsed,
           instructionLoop settings keywords document (escape parsed)
             (getInstructions dockerfile)
             (noSourceImageCheck document (getInstructions dockerfile) problems0)))"

definition validate ::
  "nat \<Rightarrow> (string \<Rightarrow> string) \<Rightarrow> ValidatorSettings \<Rightarrow> string list \<Rightarrow> TextDocument \<Rightarrow> Dockerfile
     \<Rightarrow> (error + Diagnostic list) option" where
  "validate fuel toUpperCase settings keywords document dockerfile =
     (case documentPass settings keywords document dockerfile of
        (parsed, Inl e) \<Rightarrow> Some (Inl e)
      | (parsed, Inr problems) \<Rightarrow>
          map_option Inr
            (lineCheck fuel toUpperCase document keywords (escape parsed) (getText document)
               (dc parsed) problems))"

section \<open>Documents for the examples\<close>

text \<open>
  A text document whose conversions count the lines of its text: a line ends at a line
  feed, at a carriage return, or at the pair of them.
\<close>

fun positionFrom :: "Position \<Rightarrow> string \<Rightarrow> nat \<Rightarrow> Position" where
  "positionFrom p text 0 = p"
| "positionFrom p [] (Suc n) = p"
| "positionFrom p (c # cs) (Suc n) =
     (if c = LF \<or> (c = CR \<and> take 1 cs \<noteq> [LF])
      then positionFrom \<lparr> line = line p + 1, character = 0 \<rparr> cs n
      else positionFrom \<lparr> line = line p, character = character p + 1 \<rparr> cs n)"

definition textDocument :: "string \<Rightarrow> TextDocument" where
  "textDocument text =
     \<lparr> getText = text,
       positionAt = (\<lambda>offset. positionFrom \<lparr> line = 0, character = 0 \<rparr> text (nat offset)),
       offsetAt = (\<lambda>p. case find (\<lambda>n. positionFrom \<lparr> line = 0, character = 0 \<rparr> text n = p)
                               [0 ..< Suc (length text)] of
                          Some n \<Rightarrow> int n | None \<Rightarrow> int (length text)) \<rparr>"

definition rangeOf :: "int \<Rightarrow> int \<Rightarrow> int \<Rightarrow> int \<Rightarrow> Range" where
  "rangeOf l1 c1 l2 c2 =
     \<lparr> range_start = \<lparr> line = l1, character = c1 \<rparr>,
       range_end = \<lparr> line = l2, character = c2 \<rparr> \<rparr>"

text \<open>The conversions of a document give a range back.\<close>

definition roundTrip :: "TextDocument \<Rightarrow> Range \<Rightarrow> bool" where
  "roundTrip document r =
     (positionAt document (offsetAt document (range_start r)) = range_start r
      \<and> positionAt document (offsetAt document (range_end r)) = range_end r)"

section \<open>What the checks on an instruction add\<close>

text \<open>
  The text after the keyword of an instruction, as \<open>checkArguments\<close> takes it, and a
  diagnostic built over the offsets of a range.
\<close>

definition argumentsOf :: "Instruction \<Rightarrow> string" where
  "argumentsOf instruction =
     substringFrom (getTextContent instruction) (int (length (getInstruction instruction)))"

definition atRange :: "TextDocument \<Rightarrow> (int \<Rightarrow> int \<Rightarrow> 'a) \<Rightarrow> Range \<Rightarrow> 'a" where
  "atRange document create r =
     create (offsetAt document (range_start r)) (offsetAt document (range_end r))"

text \<open>
  The argument-presence check in the words of the specification: the text holds no
  content when it is made of whitespace and of continuations (an escape character and the
  line break character behind it) only.
\<close>

fun blankArguments :: "string \<Rightarrow> string \<Rightarrow> bool" where
  "blankArguments esc [] = True"
| "blankArguments esc [c] = isWhitespace [c]"
| "blankArguments esc (c # d # cs) =
     (if isWhitespace [c] then blankArguments esc (d # cs)
      else if [c] = esc \<and> (d = CR \<or> d = LF) then blankArguments esc cs
      else False)"

text \<open>The diagnostics that the checks of one instruction add, part by part.\<close>

definition maintainerProblems ::
  "ValidatorSettings \<Rightarrow> TextDocument \<Rightarrow> Instruction \<Rightarrow> Diagnostic list" where
  "maintainerProblems settings document instruction =
     (if getKeyword instruction = ''MAINTAINER'' then
        (case createMaintainerDeprecated settings document
                (offsetAt document (range_start (getInstructionRange instruction)))
                (offsetAt document (range_start (getInstructionRange instruction))) of
           Some diagnostic \<Rightarrow> [diagnostic] | None \<Rightarrow> [])
      else [])"

definition extraProblems :: "TextDocument \<Rightarrow> Argument list \<Rightarrow> Diagnostic list" where
  "extraProblems document args =
     (case args of
        arg0 # arg1 # rest \<Rightarrow> [atRange document (createExtraArgument document) (arg_range arg1)]
      | _ \<Rightarrow> [])"

definition stopSignalProblems :: "TextDocument \<Rightarrow> Argument list \<Rightarrow> Diagnostic list" where
  "stopSignalProblems document args =
     (case args of
        [] \<Rightarrow> []
      | arg0 # rest \<Rightarrow>
          (if stopSignalValid (arg_value arg0) then []
           else [atRange document (createInvalidStopSignal document) (arg_range arg0)]))"

definition portProblems :: "TextDocument \<Rightarrow> Argument list \<Rightarrow> Diagnostic list" where
  "portProblems document args =
     map (\<lambda>arg. atRange document (\<lambda>s e. createInvalidPort document s e (arg_value arg))
                  (arg_range arg))
       (filter (\<lambda>arg. \<not> exposeValid (arg_value arg)) args)"

definition argumentProblems :: "TextDocument \<Rightarrow> string \<Rightarrow> Instruction \<Rightarrow> Diagnostic list" where
  "argumentProblems document esc instruction =
     (if getKeyword instruction = ''FROM'' \<or> getKeyword instruction = ''WORKDIR''
         \<or> getKeyword instruction = ''USER''
      then extraProblems document (getArgments instruction esc)
      else if getKeyword instruction = ''STOPSIGNAL''
      then stopSignalProblems document (getArgments instruction esc)
             @ extraProblems document (getArgments instruction esc)
      else if getKeyword instruction = ''EXPOSE''
      then portProblems document (getArgments instruction esc)
      else [])"

definition instructionProblems ::
  "ValidatorSettings \<Rightarrow> string list \<Rightarrow> TextDocument \<Rightarrow> string \<Rightarrow> Instruction
     \<Rightarrow> Diagnostic list" where
  "instructionProblems settings keywords document esc instruction =
     (if getKeyword instruction \<notin> set keywords then
        [atRange document (\<lambda>s e. createUnknownInstruction document s e (getKeyword instruction))
           (getInstructionRange instruction)]
      else if getKeyword instruction \<noteq> getInstruction instruction then
        [atRange document (createUppercaseInstruction document) (getInstructionRange instruction)]
      else if blankArguments esc (argumentsOf instruction) then
        maintainerProblems settings document instruction
          @ [atRange document (createMissingArgument document) (getInstructionRange instruction)]
      else maintainerProblems settings document instruction
             @ argumentProblems document esc instruction)"

section \<open>Examples and auxiliary notions of the properties\<close>

text \<open>
  The document \<open>#foo=`\<close> (an unknown directive whose value is a backtick) and the
  document \<open>#escape=x\<close>.
\<close>

definition fooDirective :: Directive where
  "fooDirective =
     \<lparr> dir_name = ''foo'', dir_value = [BACKTICK], dir_nameRange = rangeOf 0 1 0 4,
       dir_valueRange = rangeOf 0 5 0 6, dir_range = rangeOf 0 0 0 6 \<rparr>"

definition fooDockerfile :: Dockerfile where
  "fooDockerfile = \<lparr> getDirective = Some fooDirective, getInstructions = [] \<rparr>"

definition fooDocument :: TextDocument where
  "fooDocument = textDocument (''#foo='' @ [BACKTICK])"

definition escapeXDirective :: Directive where
  "escapeXDirective =
     \<lparr> dir_name = ''escape'', dir_value = ''x'', dir_nameRange = rangeOf 0 1 0 7,
       dir_valueRange = rangeOf 0 8 0 9, dir_range = rangeOf 0 0 0 9 \<rparr>"

definition escapeXDockerfile :: Dockerfile where
  "escapeXDockerfile = \<lparr> getDirective = Some escapeXDirective, getInstructions = [] \<rparr>"

definition escapeXDocument :: TextDocument where
  "escapeXDocument = textDocument ''#escape=x''"

text \<open>
  The instruction \<open>FROM\<close>, followed by a space, a backslash and a line feed at the end of
  the text: the continuation reaches the end of the text, and the check reports a
  missing argument.
\<close>

definition fromContinued :: Instruction where
  "fromContinued =
     \<lparr> getKeyword = ''FROM'', getInstruction = ''FROM'',
       getTextContent = ''FROM '' @ [BACKSLASH, LF],
       getInstructionRange = rangeOf 0 0 0 4, getArgments = (\<lambda>esc. []) \<rparr>"

definition fromContinuedDocument :: TextDocument where
  "fromContinuedDocument = textDocument (''FROM '' @ [BACKSLASH, LF])"

text \<open>The instructions \<open>STOPSIGNAL abc def\<close>, \<open>FROM node node2\<close> and
  \<open>STOPSIGNAL abc\<close>.\<close>

definition stopSignalTwo :: Instruction where
  "stopSignalTwo =
     \<lparr> getKeyword = ''STOPSIGNAL'', getInstruction = ''STOPSIGNAL'',
       getTextContent = ''STOPSIGNAL abc def'',
       getInstructionRange = rangeOf 0 0 0 10,
       getArgments = (\<lambda>esc. [\<lparr> arg_value = ''abc'', arg_range = rangeOf 0 11 0 14 \<rparr>,
                              \<lparr> arg_value = ''def'', arg_range = rangeOf 0 15 0 18 \<rparr>]) \<rparr>"

definition stopSignalTwoDocument :: TextDocument where
  "stopSignalTwoDocument = textDocument ''STOPSIGNAL abc def''"

definition fromTwo :: Instruction where
  "fromTwo =
     \<lparr> getKeyword = ''FROM'', getInstruction = ''FROM'',
       getTextContent = ''FROM node node2'',
       getInstructionRange = rangeOf 0 0 0 4,
       getArgments = (\<lambda>esc. [\<lparr> arg_value = ''node'', arg_range = rangeOf 0 5 0 9 \<rparr>,
                              \<lparr> arg_value = ''node2'', arg_range = rangeOf 0 10 0 15 \<rparr>]) \<rparr>"

definition fromTwoDocument :: TextDocument where
  "fromTwoDocument = textDocument ''FROM node node2''"

definition stopSignalOne :: Instruction where
  "stopSignalOne =
     \<lparr> getKeyword = ''STOPSIGNAL'', getInstruction = ''STOPSIGNAL'',
       getTextContent = ''STOPSIGNAL abc'',
       getInstructionRange = rangeOf 0 0 0 10,
       getArgments = (\<lambda>esc. [\<lparr> arg_value = ''abc'', arg_range = rangeOf 0 11 0 14 \<rparr>]) \<rparr>"

definition stopSignalOneDocument :: TextDocument where
  "stopSignalOneDocument = textDocument ''STOPSIGNAL abc''"

text \<open>The instruction \<open>EXPOSE 8080 -80\<close>.\<close>

definition exposeTwo :: Instruction where
  "exposeTwo =
     \<lparr> getKeyword = ''EXPOSE'', getInstruction = ''EXPOSE'',
       getTextContent = ''EXPOSE 8080 -80'',
       getInstructionRange = rangeOf 0 0 0 6,
       getArgments = (\<lambda>esc. [\<lparr> arg_value = ''8080'', arg_range = rangeOf 0 7 0 11 \<rparr>,
                              \<lparr> arg_value = ''-80'', arg_range = rangeOf 0 12 0 15 \<rparr>]) \<rparr>"

definition exposeTwoDocument :: TextDocument where
  "exposeTwoDocument = textDocument ''EXPOSE 8080 -80''"

text \<open>The instruction \<open>EXPOSE $$\<close>.\<close>

definition exposeDollar :: Instruction where
  "exposeDollar =
     \<lparr> getKeyword = ''EXPOSE'', getInstruction = ''EXPOSE'',
       getTextContent = ''EXPOSE $$'',
       getInstructionRange = rangeOf 0 0 0 6,
       getArgments = (\<lambda>esc. [\<lparr> arg_value = ''$$'', arg_range = rangeOf 0 7 0 9 \<rparr>]) \<rparr>"

definition exposeDollarDocument :: TextDocument where
  "exposeDollarDocument = textDocument ''EXPOSE $$''"

definition exposeDollarDockerfile :: Dockerfile where
  "exposeDollarDockerfile = \<lparr> getDirective = None, getInstructions = [exposeDollar] \<rparr>"

text \<open>The instruction \<open>MAINTAINER me\<close>.\<close>

definition maintainerMe :: Instruction where
  "maintainerMe =
     \<lparr> getKeyword = ''MAINTAINER'', getInstruction = ''MAINTAINER'',
       getTextContent = ''MAINTAINER me'',
       getInstructionRange = rangeOf 0 0 0 10,
       getArgments = (\<lambda>esc. [\<lparr> arg_value = ''me'', arg_range = rangeOf 0 11 0 13 \<rparr>]) \<rparr>"

definition maintainerMeDocument :: TextDocument where
  "maintainerMeDocument = textDocument ''MAINTAINER me''"

text \<open>
  The arrays \<open>["/data" "/logs"]\<close>, where a comma is missing, and \<open>[/data]\<close>, whose
  string is not quoted.
\<close>

definition missingCommaArray :: string where
  "missingCommaArray =
     ''['' @ [DQUOTE] @ ''/data'' @ [DQUOTE] @ '' '' @ [DQUOTE] @ ''/logs'' @ [DQUOTE] @ '']''"

definition unquotedArray :: string where
  "unquotedArray = ''[/data]''"

text \<open>
  The array \<open>["a\\<close>, a line feed, \<open>b"]\<close>, with a backslash and a line feed inside
  the string, and the array \<open>["a"\\<close>, a line feed, \<open>]\<close>, with them outside.
\<close>

definition continuedStringArray :: string where
  "continuedStringArray = ''['' @ [DQUOTE] @ ''a'' @ [BACKSLASH, LF] @ ''b'' @ [DQUOTE] @ '']''"

definition continuedArray :: string where
  "continuedArray = ''['' @ [DQUOTE] @ ''a'' @ [DQUOTE] @ [BACKSLASH, LF] @ '']''"

definition addsTokens :: "TextDocument \<Rightarrow> Diagnostic list \<Rightarrow> Diagnostic list \<Rightarrow> bool" where
  "addsTokens document problems out =
     (\<exists>ds. out = problems @ ds
           \<and> (\<forall>d \<in> set ds. \<exists>s. d = createUnexpectedToken document s (s + 1)))"

text \<open>The diagnostics of a list that say that no source image is given.\<close>

definition noSourceImages :: "Diagnostic list \<Rightarrow> Diagnostic list" where
  "noSourceImages problems = filter (\<lambda>d. code d = NO_SOURCE_IMAGE) problems"

text \<open>
  A document that is one comment, without instructions, and the document
  \<open>EXPOSE 8080 -80\<close>, whose first instruction is not \<open>FROM\<close>.
\<close>

definition commentDocument :: TextDocument where
  "commentDocument = textDocument ''# only a comment''"

definition commentDockerfile :: Dockerfile where
  "commentDockerfile = \<lparr> getDirective = None, getInstructions = [] \<rparr>"

definition exposeDockerfile :: Dockerfile where
  "exposeDockerfile = \<lparr> getDirective = None, getInstructions = [exposeTwo] \<rparr>"

text \<open>
  The document \<open>FOO x\<close>, a line feed, \<open>VOLUME [x]\<close>, a line feed, with the
  instructions that the parser gives for it, and the document \<open>FOO x\<close>.
\<close>

definition unknownWordText :: string where
  "unknownWordText = ''FOO x'' @ [LF] @ ''VOLUME [x]'' @ [LF]"

definition unknownWordDocument :: TextDocument where
  "unknownWordDocument = textDocument unknownWordText"

definition unknownWordDockerfile :: Dockerfile where
  "unknownWordDockerfile =
     \<lparr> getDirective = None,
       getInstructions =
         [\<lparr> getKeyword = ''FOO'', getInstruction = ''FOO'', getTextContent = ''FOO x'',
            getInstructionRange = rangeOf 0 0 0 3,
            getArgments = (\<lambda>esc. [\<lparr> arg_value = ''x'', arg_range = rangeOf 0 4 0 5 \<rparr>]) \<rparr>,
          \<lparr> getKeyword = ''VOLUME'', getInstruction = ''VOLUME'',
            getTextContent = ''VOLUME [x]'', getInstructionRange = rangeOf 1 0 1 6,
            getArgments = (\<lambda>esc. [\<lparr> arg_value = ''[x]'', arg_range = rangeOf 1 7 1 10 \<rparr>]) \<rparr>] \<rparr>"

definition cutArrayText :: string where
  "cutArrayText = ''FROM busybox'' @ [LF] @ ''VOLUME ['' @ [LF]"

definition cutArrayDockerfile :: Dockerfile where
  "cutArrayDockerfile =
     \<lparr> getDirective = None,
       getInstructions =
         [\<lparr> getKeyword = ''FROM'', getInstruction = ''FROM'',
            getTextContent = ''FROM busybox'', getInstructionRange = rangeOf 0 0 0 4,
            getArgments = (\<lambda>esc. [\<lparr> arg_value = ''busybox'', arg_range = rangeOf 0 5 0 12 \<rparr>]) \<rparr>,
          \<lparr> getKeyword = ''VOLUME'', getInstruction = ''VOLUME'',
            getTextContent = ''VOLUME ['', getInstructionRange = rangeOf 1 0 1 6,
            getArgments = (\<lambda>esc. [\<lparr> arg_value = ''['', arg_range = rangeOf 1 7 1 8 \<rparr>]) \<rparr>] \<rparr>"

text \<open>
  The text of a space and \<open>VOLUME [\<close>, with the instruction that the parser gives for
  it.
\<close>

definition loopText :: string where
  "loopText = '' VOLUME [''"

definition loopDockerfile :: Dockerfile where
  "loopDockerfile =
     \<lparr> getDirective = None,
       getInstructions =
         [\<lparr> getKeyword = ''VOLUME'', getInstruction = ''VOLUME'',
            getTextContent = ''VOLUME ['', getInstructionRange = rangeOf 0 1 0 7,
            getArgments = (\<lambda>esc. [\<lparr> arg_value = ''['', arg_range = rangeOf 0 8 0 9 \<rparr>]) \<rparr>] \<rparr>"



text \<open>
  The order of the positions, by the line and then by the character, and the positions of
  the offsets of a document, from 0 to the length of its text.  A diagnostic is well
  ranged when the start of its range is not behind its end and both are such positions.
\<close>

definition positionLe :: "Position \<Rightarrow> Position \<Rightarrow> bool" where
  "positionLe p q = (line p < line q \<or> (line p = line q \<and> character p \<le> character q))"

definition inDocument :: "TextDocument \<Rightarrow> Position \<Rightarrow> bool" where
  "inDocument document p =
     (p \<in> set (map (positionAt document) [0 .. int (length (getText document))]))"

definition wellRanged :: "TextDocument \<Rightarrow> Diagnostic \<Rightarrow> bool" where
  "wellRanged document d =
     (positionLe (range_start (range d)) (range_end (range d))
      \<and> inDocument document (range_start (range d))
      \<and> inDocument document (range_end (range d)))"

text \<open>
  The text document of the editor protocol library is not among the sources.  What the
  ranges of the diagnostics need of it is stated as two conditions on \<open>positionAt\<close>: an
  offset outside the text is taken as the nearest end of the text, and the order of the
  offsets is kept.
\<close>

definition clampOffset :: "string \<Rightarrow> int \<Rightarrow> int" where
  "clampOffset text offset = max 0 (min offset (int (length text)))"

definition clampsOffsets :: "TextDocument \<Rightarrow> bool" where
  "clampsOffsets document =
     (\<forall>offset. positionAt document offset
                 = positionAt document (clampOffset (getText document) offset))"

definition keepsOrder :: "TextDocument \<Rightarrow> bool" where
  "keepsOrder document =
     (\<forall>a b. a \<le> b \<longrightarrow> positionLe (positionAt document a) (positionAt document b))"

text \<open>
  The ranges that the parser gives are inputs of the validator.  A range is ordered when
  the offset of its start is not behind the offset of its end; the ranges of a parsed
  document are those that the validator reads: the ranges of the name and of the value of
  the directive, the range of each instruction, and the ranges of its arguments for the
  escape character of the document.
\<close>

definition orderedRange :: "TextDocument \<Rightarrow> Range \<Rightarrow> bool" where
  "orderedRange document r =
     (offsetAt document (range_start r) \<le> offsetAt document (range_end r))"

definition orderedRanges :: "TextDocument \<Rightarrow> Dockerfile \<Rightarrow> bool" where
  "orderedRanges document dockerfile =
     ((case getDirective dockerfile of
         None \<Rightarrow> True
       | Some directive \<Rightarrow>
           orderedRange document (dir_nameRange directive)
           \<and> orderedRange document (dir_valueRange directive))
      \<and> (\<forall>instruction \<in> set (getInstructions dockerfile).
            orderedRange document (getInstructionRange instruction)
            \<and> (\<forall>arg \<in> set (getArgments instruction
                                 (escape (fst (parseDirective dockerfile document [])))).
                  orderedRange document (arg_range arg))))"

section \<open>The escape directive: properties\<close>

lemma parseDirective_escape:
  "escape (fst (parseDirective dockerfile document problems)) = [BACKSLASH]
   \<or> escape (fst (parseDirective dockerfile document problems)) = [BACKTICK]"
  by (simp add: parseDirective_def Let_def split: option.splits)

lemma range_createDiagnostic:
  "roundTrip document r \<Longrightarrow>
     range (createDiagnostic document sev (offsetAt document (range_start r))
              (offsetAt document (range_end r)) m c) = r"
  by (simp add: roundTrip_def createDiagnostic_def)

text \<open>
  C2.  With a directive on line 0 whose name is not \<open>escape\<close>, \<open>parseDirective\<close> adds
  exactly one diagnostic, the UNKNOWN_DIRECTIVE error built over the offsets of the
  directive's name range (so at that range, when the document converts it back), and the
  escape character is the directive's value when that is a backslash or a backtick, and a
  backslash otherwise.  With a directive named \<open>escape\<close> whose value is neither a
  backslash, a backtick nor empty, it adds exactly one diagnostic, the
  INVALID_ESCAPE_DIRECTIVE error over the value range, and the escape character is a
  backslash.
\<close>

theorem parseDirective_directive:
  assumes "getDirective dockerfile = Some directive"
  shows
    "(dir_name directive \<noteq> DIRECTIVE_ESCAPE \<longrightarrow>
        snd (parseDirective dockerfile document problems) =
          problems @ [createUnknownDirective document
             (offsetAt document (range_start (dir_nameRange directive)))
             (offsetAt document (range_end (dir_nameRange directive))) (dir_name directive)]
        \<and> escape (fst (parseDirective dockerfile document problems)) =
            (if dir_value directive = [BACKSLASH] \<or> dir_value directive = [BACKTICK]
             then dir_value directive else [BACKSLASH]))
     \<and> (dir_name directive = DIRECTIVE_ESCAPE \<and> dir_value directive \<noteq> [BACKSLASH]
          \<and> dir_value directive \<noteq> [BACKTICK] \<and> dir_value directive \<noteq> [] \<longrightarrow>
        snd (parseDirective dockerfile document problems) =
          problems @ [createInvalidEscapeDirective document
             (offsetAt document (range_start (dir_valueRange directive)))
             (offsetAt document (range_end (dir_valueRange directive))) (dir_value directive)]
        \<and> escape (fst (parseDirective dockerfile document problems)) = [BACKSLASH])
     \<and> code (createUnknownDirective document s e n) = UNKNOWN_DIRECTIVE
     \<and> severity (createUnknownDirective document s e n) = Error
     \<and> code (createInvalidEscapeDirective document s e n) = INVALID_ESCAPE_DIRECTIVE
     \<and> severity (createInvalidEscapeDirective document s e n) = Error
     \<and> (roundTrip document r \<longrightarrow>
          range (createUnknownDirective document (offsetAt document (range_start r))
                   (offsetAt document (range_end r)) n) = r
          \<and> range (createInvalidEscapeDirective document (offsetAt document (range_start r))
                   (offsetAt document (range_end r)) n) = r)"
  using assms
  by (simp add: parseDirective_def Let_def createUnknownDirective_def
        createInvalidEscapeDirective_def createError_def range_createDiagnostic)
     (simp add: createDiagnostic_def)

theorem parseDirective_directive_witness:
  "getDirective fooDockerfile = Some fooDirective
   \<and> dir_name fooDirective \<noteq> DIRECTIVE_ESCAPE
   \<and> roundTrip fooDocument (rangeOf 0 1 0 4)
   \<and> snd (parseDirective fooDockerfile fooDocument []) =
       [createUnknownDirective fooDocument 1 4 ''foo'']
   \<and> range (createUnknownDirective fooDocument 1 4 ''foo'') = rangeOf 0 1 0 4
   \<and> escape (fst (parseDirective fooDockerfile fooDocument [])) = [BACKTICK]
   \<and> getDirective escapeXDockerfile = Some escapeXDirective
   \<and> dir_name escapeXDirective = DIRECTIVE_ESCAPE
   \<and> roundTrip escapeXDocument (rangeOf 0 8 0 9)
   \<and> snd (parseDirective escapeXDockerfile escapeXDocument []) =
       [createInvalidEscapeDirective escapeXDocument 8 9 ''x'']
   \<and> range (createInvalidEscapeDirective escapeXDocument 8 9 ''x'') = rangeOf 0 8 0 9
   \<and> escape (fst (parseDirective escapeXDockerfile escapeXDocument [])) = [BACKSLASH]"
proof -
  have a: "getDirective fooDockerfile = Some fooDirective"
    by (simp add: fooDockerfile_def)
  have b: "getDirective escapeXDockerfile = Some escapeXDirective"
    by (simp add: escapeXDockerfile_def)
  have fa: "dir_name fooDirective \<noteq> DIRECTIVE_ESCAPE"
    by (simp add: fooDirective_def DIRECTIVE_ESCAPE_def)
  have fa': "dir_name fooDirective = ''foo''" "dir_value fooDirective = [BACKTICK]"
    "dir_nameRange fooDirective = rangeOf 0 1 0 4"
    by (simp_all add: fooDirective_def)
  have fb: "dir_name escapeXDirective = DIRECTIVE_ESCAPE \<and> dir_value escapeXDirective \<noteq> [BACKSLASH]
      \<and> dir_value escapeXDirective \<noteq> [BACKTICK] \<and> dir_value escapeXDirective \<noteq> []"
    by (simp add: escapeXDirective_def DIRECTIVE_ESCAPE_def)
  have fb': "dir_value escapeXDirective = ''x''" "dir_valueRange escapeXDirective = rangeOf 0 8 0 9"
    by (simp_all add: escapeXDirective_def)
  have r1: "roundTrip fooDocument (rangeOf 0 1 0 4)"
    by code_simp
  have r2: "roundTrip escapeXDocument (rangeOf 0 8 0 9)"
    by code_simp
  have o1: "offsetAt fooDocument (range_start (rangeOf 0 1 0 4)) = 1"
           "offsetAt fooDocument (range_end (rangeOf 0 1 0 4)) = 4"
    by code_simp+
  have o2: "offsetAt escapeXDocument (range_start (rangeOf 0 8 0 9)) = 8"
           "offsetAt escapeXDocument (range_end (rangeOf 0 8 0 9)) = 9"
    by code_simp+
  note t1 = parseDirective_directive [OF a, of fooDocument "[]" _ _ "''foo''" "rangeOf 0 1 0 4"]
  note t2 = parseDirective_directive [OF b, of escapeXDocument "[]" _ _ "''x''" "rangeOf 0 8 0 9"]
  from t1 fa have "snd (parseDirective fooDockerfile fooDocument []) =
      [] @ [createUnknownDirective fooDocument
              (offsetAt fooDocument (range_start (dir_nameRange fooDirective)))
              (offsetAt fooDocument (range_end (dir_nameRange fooDirective)))
              (dir_name fooDirective)]"
    by blast
  then have s1: "snd (parseDirective fooDockerfile fooDocument []) =
      [createUnknownDirective fooDocument 1 4 ''foo'']"
    by (simp add: fa' o1)
  from t1 fa have "escape (fst (parseDirective fooDockerfile fooDocument [])) =
      (if dir_value fooDirective = [BACKSLASH] \<or> dir_value fooDirective = [BACKTICK]
       then dir_value fooDirective else [BACKSLASH])"
    by blast
  then have e1: "escape (fst (parseDirective fooDockerfile fooDocument [])) = [BACKTICK]"
    by (simp add: fa')
  from t1 r1 have "range (createUnknownDirective fooDocument
      (offsetAt fooDocument (range_start (rangeOf 0 1 0 4)))
      (offsetAt fooDocument (range_end (rangeOf 0 1 0 4))) ''foo'') = rangeOf 0 1 0 4"
    by blast
  then have g1: "range (createUnknownDirective fooDocument 1 4 ''foo'') = rangeOf 0 1 0 4"
    by (simp add: o1)
  from t2 fb have "snd (parseDirective escapeXDockerfile escapeXDocument []) =
      [] @ [createInvalidEscapeDirective escapeXDocument
              (offsetAt escapeXDocument (range_start (dir_valueRange escapeXDirective)))
              (offsetAt escapeXDocument (range_end (dir_valueRange escapeXDirective)))
              (dir_value escapeXDirective)]"
    by blast
  then have s2: "snd (parseDirective escapeXDockerfile escapeXDocument []) =
      [createInvalidEscapeDirective escapeXDocument 8 9 ''x'']"
    by (simp add: fb' o2)
  from t2 fb have e2: "escape (fst (parseDirective escapeXDockerfile escapeXDocument []))
      = [BACKSLASH]"
    by blast
  from t2 r2 have "range (createInvalidEscapeDirective escapeXDocument
      (offsetAt escapeXDocument (range_start (rangeOf 0 8 0 9)))
      (offsetAt escapeXDocument (range_end (rangeOf 0 8 0 9))) ''x'') = rangeOf 0 8 0 9"
    by blast
  then have g2: "range (createInvalidEscapeDirective escapeXDocument 8 9 ''x'') = rangeOf 0 8 0 9"
    by (simp add: o2)
  from a b fa fb r1 r2 s1 s2 e1 e2 g1 g2 show ?thesis
    by blast
qed

section \<open>The checks on an instruction: properties\<close>

lemma charAt_in: "0 \<le> i \<Longrightarrow> i < int (length text) \<Longrightarrow> charAt text i = [text ! nat i]"
  by (simp add: charAt_def)

lemma charAt_out: "int (length text) \<le> i \<Longrightarrow> charAt text i = []"
  by (simp add: charAt_def)

lemma drop_nat_step:
  "0 \<le> i \<Longrightarrow> i < int (length text) \<Longrightarrow>
     drop (nat i) text = text ! nat i # drop (nat (i + 1)) text"
  by (simp add: Cons_nth_drop_Suc nat_add_distrib)

text \<open>The loop of \<open>checkArguments\<close> computes the check of the specification.\<close>

lemma checkArguments_loop_blank:
  "0 \<le> i \<Longrightarrow> checkArguments_loop args esc i = blankArguments esc (drop (nat i) args)"
proof (induction args esc i rule: checkArguments_loop.induct)
  case (1 args esc i)
  show ?case
  proof (cases "i < int (length args)")
    case False
    then show ?thesis
      using "1.prems" by (subst checkArguments_loop.simps) simp
  next
    case inside: True
    with "1.prems" have d: "drop (nat i) args = args ! nat i # drop (nat (i + 1)) args"
      by (rule drop_nat_step)
    have c: "charAt args i = [args ! nat i]"
      using "1.prems" inside by (rule charAt_in)
    show ?thesis
    proof (cases "i + 1 < int (length args)")
      case False
      then have e: "drop (nat (i + 1)) args = []" by simp
      from False have c1: "charAt args (i + 1) = []" by (simp add: charAt_out)
      show ?thesis
        using inside "1.prems" "1.IH"(1) c c1 d e
        by (subst checkArguments_loop.simps) (auto simp: isWhitespace_def)
    next
      case True
      with "1.prems" have d1:
        "drop (nat (i + 1)) args = args ! nat (i + 1) # drop (nat (i + 1 + 1)) args"
        using drop_nat_step [of "i + 1" args] by simp
      have c1: "charAt args (i + 1) = [args ! nat (i + 1)]"
        using "1.prems" True by (simp add: charAt_in)
      show ?thesis
        using inside "1.prems" "1.IH" c c1 d d1
        by (subst checkArguments_loop.simps) (auto simp: isWhitespace_def)
    qed
  qed
qed

lemma checkArguments_blank:
  "checkArguments document esc instruction problems =
     (if blankArguments esc (argumentsOf instruction)
      then (False, problems @ [atRange document (createMissingArgument document)
                                 (getInstructionRange instruction)])
      else (True, problems))"
  by (simp add: checkArguments_def Let_def checkArguments_loop_blank argumentsOf_def atRange_def)

lemma checkEachArgument_some:
  "checkEachArgument document valid (Some f) args problems =
     Inr (problems @ map (\<lambda>arg. atRange document (\<lambda>s e. f s e (Some (arg_value arg))) (arg_range arg))
                       (filter (\<lambda>arg. \<not> valid (arg_value arg)) args))"
  by (induction args arbitrary: problems) (simp_all add: atRange_def)

lemma checkSingleArgument_always:
  "checkSingleArgument document esc instruction problems True alwaysValid None =
     Inr (problems @ extraProblems document (getArgments instruction esc))"
  by (simp add: checkSingleArgument_def alwaysValid_def extraProblems_def atRange_def
           split: list.splits)

lemma checkSingleArgument_stopSignal:
  "checkSingleArgument document esc instruction problems True stopSignalValid
       (Some (\<lambda>s e v. createInvalidStopSignal document s e)) =
     Inr (problems @ stopSignalProblems document (getArgments instruction esc)
            @ extraProblems document (getArgments instruction esc))"
  by (simp add: checkSingleArgument_def stopSignalProblems_def extraProblems_def atRange_def
           split: list.splits)

lemma checkSingleArgument_expose:
  "checkSingleArgument document esc instruction problems False exposeValid
       (Some (\<lambda>s e v. createInvalidPort document s e
                         (case v of Some port \<Rightarrow> port | None \<Rightarrow> ''undefined''))) =
     Inr (problems @ portProblems document (getArgments instruction esc))"
  by (cases "getArgments instruction esc")
     (simp_all add: checkSingleArgument_def portProblems_def checkEachArgument_some atRange_def)

lemma indexOf_absent: "indexOf xs x = -1 \<longleftrightarrow> x \<notin> set xs"
proof (induction xs)
  case Nil
  show ?case by simp
next
  case (Cons y ys)
  have "0 \<le> indexOf ys x \<or> indexOf ys x = -1"
    by (induction ys) (auto simp: Let_def)
  with Cons show ?case by (auto simp: Let_def)
qed

text \<open>The checks of one instruction never raise, and add \<open>instructionProblems\<close>.\<close>

lemma validateInstruction_shape:
  "validateInstruction settings keywords document esc instruction problems =
     Inr (problems @ instructionProblems settings keywords document esc instruction)"
  by (simp add: validateInstruction_def Let_def indexOf_absent checkArguments_blank
        maintainerProblems_def argumentProblems_def checkSingleArgument_always
        checkSingleArgument_stopSignal checkSingleArgument_expose atRange_def
        instructionProblems_def
      split: option.splits)

lemma instructionLoop_shape:
  "instructionLoop settings keywords document esc instructions problems =
     Inr (problems @ concat (map (instructionProblems settings keywords document esc) instructions))"
  by (induction instructions arbitrary: problems) (simp_all add: validateInstruction_shape)

lemma code_createDiagnostic [simp]:
  "code (createDiagnostic document sev s e m (Some c)) = c"
  "code (createDiagnostic document sev s e m None) = DEFAULT"
  "severity (createDiagnostic document sev s e m c') = sev"
  "message (createDiagnostic document sev s e m c') = m"
  by (simp_all add: createDiagnostic_def)

lemma maintainerProblems_eq:
  "maintainerProblems settings document instruction =
     (if getKeyword instruction = ''MAINTAINER'' \<and> deprecatedMaintainer settings \<noteq> IGNORE then
        [createDiagnostic document
           (if deprecatedMaintainer settings = ERROR then Error else Warning)
           (offsetAt document (range_start (getInstructionRange instruction)))
           (offsetAt document (range_start (getInstructionRange instruction)))
           getDiagnosticMessage_DeprecatedMaintainer (Some DEPRECATED_MAINTAINER)]
      else [])"
  by (cases "deprecatedMaintainer settings")
     (simp_all add: maintainerProblems_def createMaintainerDeprecated_def)

lemma code_maintainerProblems:
  "x \<in> set (maintainerProblems settings document instruction) \<Longrightarrow> code x = DEPRECATED_MAINTAINER"
  by (auto simp: maintainerProblems_eq split: if_splits)

lemma code_argumentProblems:
  "x \<in> set (argumentProblems document esc instruction) \<Longrightarrow>
     code x = EXTRA_ARGUMENT \<or> code x = INVALID_STOPSIGNAL \<or> code x = INVALID_PORT"
  by (auto simp: argumentProblems_def extraProblems_def stopSignalProblems_def portProblems_def
        atRange_def createExtraArgument_def createInvalidStopSignal_def createInvalidPort_def
        createError_def
      split: if_splits list.splits)

section \<open>The argument-presence check\<close>

text \<open>
  C6, as amended.  In \<open>checkArguments\<close>, over the text after the instruction's keyword:
  whitespace is skipped; an escape character immediately followed by a line break
  character is skipped with that character and is no content, also when nothing follows
  it; any other character that is not whitespace, and an escape character not followed by
  a line break character, is content.  Exactly when no content is found, the check
  fails and adds one MISSING_ARGUMENT error over the instruction's range, and for an
  instruction that reaches the check (its keyword in the whitelist and written in upper
  case) nothing else is added after it: the validators of the arguments are not run.
\<close>

theorem checkArguments_presence:
  "fst (checkArguments document esc instruction problems)
     = (\<not> blankArguments esc (argumentsOf instruction))
   \<and> snd (checkArguments document esc instruction problems) =
       (if blankArguments esc (argumentsOf instruction)
        then problems @ [atRange document (createMissingArgument document)
                           (getInstructionRange instruction)]
        else problems)
   \<and> (getKeyword instruction \<in> set keywords
        \<and> getKeyword instruction = getInstruction instruction \<longrightarrow>
        validateInstruction settings keywords document esc instruction problems =
          Inr (problems @ maintainerProblems settings document instruction @
                 (if blankArguments esc (argumentsOf instruction)
                  then [atRange document (createMissingArgument document)
                          (getInstructionRange instruction)]
                  else argumentProblems document esc instruction))
        \<and> (\<forall>x \<in> set (maintainerProblems settings document instruction
                        @ argumentProblems document esc instruction).
              code x \<noteq> MISSING_ARGUMENT))
   \<and> code (createMissingArgument document s e) = MISSING_ARGUMENT
   \<and> severity (createMissingArgument document s e) = Error
   \<and> (roundTrip document r \<longrightarrow>
        range (atRange document (createMissingArgument document) r) = r)"
proof -
  have codes: "\<forall>x \<in> set (maintainerProblems settings document instruction
                        @ argumentProblems document esc instruction).
              code x \<noteq> MISSING_ARGUMENT"
    using code_maintainerProblems [of _ settings document instruction]
          code_argumentProblems [of _ document esc instruction]
    by fastforce
  have shape: "getKeyword instruction \<in> set keywords
        \<and> getKeyword instruction = getInstruction instruction \<longrightarrow>
        validateInstruction settings keywords document esc instruction problems =
          Inr (problems @ maintainerProblems settings document instruction @
                 (if blankArguments esc (argumentsOf instruction)
                  then [atRange document (createMissingArgument document)
                          (getInstructionRange instruction)]
                  else argumentProblems document esc instruction))"
    by (auto simp: validateInstruction_shape instructionProblems_def)
  have factory: "code (createMissingArgument document s e) = MISSING_ARGUMENT
      \<and> severity (createMissingArgument document s e) = Error
      \<and> (roundTrip document r \<longrightarrow>
            range (atRange document (createMissingArgument document) r) = r)"
    by (simp add: createMissingArgument_def createError_def atRange_def range_createDiagnostic)
  have check: "fst (checkArguments document esc instruction problems)
       = (\<not> blankArguments esc (argumentsOf instruction))
     \<and> snd (checkArguments document esc instruction problems) =
       (if blankArguments esc (argumentsOf instruction)
        then problems @ [atRange document (createMissingArgument document)
                           (getInstructionRange instruction)]
        else problems)"
    by (simp add: checkArguments_blank)
  from check shape codes factory show ?thesis
    by blast
qed

theorem checkArguments_continuation_counterexample:
  "argumentsOf fromContinued = '' '' @ [BACKSLASH, LF]
   \<and> checkArguments fromContinuedDocument [BACKSLASH] fromContinued [] =
       (False, [createMissingArgument fromContinuedDocument 0 4])"
  by code_simp

theorem checkArguments_presence_witness:
  "getKeyword fromContinued \<in> set [''FROM'']
   \<and> getKeyword fromContinued = getInstruction fromContinued
   \<and> blankArguments [BACKSLASH] (argumentsOf fromContinued)
   \<and> roundTrip fromContinuedDocument (rangeOf 0 0 0 4)
   \<and> validateInstruction \<lparr> deprecatedMaintainer = WARNING \<rparr> [''FROM''] fromContinuedDocument
        [BACKSLASH] fromContinued [] = Inr [createMissingArgument fromContinuedDocument 0 4]
   \<and> range (createMissingArgument fromContinuedDocument 0 4) = rangeOf 0 0 0 4"
proof -
  have h: "getKeyword fromContinued \<in> set [''FROM'']"
    "getKeyword fromContinued = getInstruction fromContinued"
    "blankArguments [BACKSLASH] (argumentsOf fromContinued)"
    "roundTrip fromContinuedDocument (rangeOf 0 0 0 4)"
    by code_simp+
  have ev: "maintainerProblems \<lparr> deprecatedMaintainer = WARNING \<rparr> fromContinuedDocument
              fromContinued = []"
    "atRange fromContinuedDocument (createMissingArgument fromContinuedDocument)
       (getInstructionRange fromContinued) = createMissingArgument fromContinuedDocument 0 4"
    "atRange fromContinuedDocument (createMissingArgument fromContinuedDocument)
       (rangeOf 0 0 0 4) = createMissingArgument fromContinuedDocument 0 4"
    by code_simp+
  note t = checkArguments_presence [of fromContinuedDocument "[BACKSLASH]" fromContinued "[]"
      "[''FROM'']" "\<lparr> deprecatedMaintainer = WARNING \<rparr>" _ _ "rangeOf 0 0 0 4"]
  have c1: "validateInstruction \<lparr> deprecatedMaintainer = WARNING \<rparr> [''FROM'']
      fromContinuedDocument [BACKSLASH] fromContinued []
        = Inr [createMissingArgument fromContinuedDocument 0 4]"
    using t h by (simp add: ev)
  have c2: "range (createMissingArgument fromContinuedDocument 0 4) = rangeOf 0 0 0 4"
    using t h by (simp add: ev)
  from h c1 c2 show ?thesis by blast
qed

section \<open>The single-argument instructions\<close>

lemma allDigits_iff: "allDigits v \<longleftrightarrow> (\<forall>c \<in> set v. CHR ''0'' \<le> c \<and> c \<le> CHR ''9'')"
  by (induction v) auto

text \<open>
  C7, as amended.  For a FROM, WORKDIR, USER or STOPSIGNAL instruction that passes the
  argument-presence check, only the first token is validated: for it the checks add
  nothing when the keyword is FROM, WORKDIR or USER, and nothing when the keyword is
  STOPSIGNAL and the token starts with \<open>SIG\<close> or is made of digits only; for any
  other first token of a STOPSIGNAL they add one INVALID_STOPSIGNAL error over the first
  token's range.  Whenever the instruction has more than one token, they add after that
  exactly one EXTRA_ARGUMENT error, over the second token's range, and nothing for the
  tokens after the second; with one token or none they add no EXTRA_ARGUMENT error.
\<close>

theorem single_argument_extra:
  assumes "getKeyword instruction \<in> {''FROM'', ''WORKDIR'', ''USER'', ''STOPSIGNAL''}"
    and "getKeyword instruction \<in> set keywords"
    and "getKeyword instruction = getInstruction instruction"
    and "fst (checkArguments document esc instruction problems)"
  shows
    "validateInstruction settings keywords document esc instruction problems =
       Inr (problems @
         (case getArgments instruction esc of
            [] \<Rightarrow> []
          | arg0 # rest \<Rightarrow>
              (if getKeyword instruction = ''STOPSIGNAL'' \<and> \<not> stopSignalValid (arg_value arg0)
               then [atRange document (createInvalidStopSignal document) (arg_range arg0)]
               else [])
              @ (case rest of
                   [] \<Rightarrow> []
                 | arg1 # others \<Rightarrow>
                     [atRange document (createExtraArgument document) (arg_range arg1)])))
     \<and> (stopSignalValid v \<longleftrightarrow>
          take 3 v = ''SIG'' \<or> (\<forall>c \<in> set v. CHR ''0'' \<le> c \<and> c \<le> CHR ''9''))
     \<and> code (createExtraArgument document s e) = EXTRA_ARGUMENT
     \<and> severity (createExtraArgument document s e) = Error
     \<and> code (createInvalidStopSignal document s e) = INVALID_STOPSIGNAL
     \<and> severity (createInvalidStopSignal document s e) = Error
     \<and> (roundTrip document r \<longrightarrow>
          range (atRange document (createExtraArgument document) r) = r
          \<and> range (atRange document (createInvalidStopSignal document) r) = r)"
proof -
  from assms(4) have present: "\<not> blankArguments esc (argumentsOf instruction)"
    by (simp add: checkArguments_blank split: if_splits)
  from assms(1) have notMaintainer: "maintainerProblems settings document instruction = []"
    by (auto simp: maintainerProblems_def)
  have shape: "validateInstruction settings keywords document esc instruction problems =
       Inr (problems @
         (case getArgments instruction esc of
            [] \<Rightarrow> []
          | arg0 # rest \<Rightarrow>
              (if getKeyword instruction = ''STOPSIGNAL'' \<and> \<not> stopSignalValid (arg_value arg0)
               then [atRange document (createInvalidStopSignal document) (arg_range arg0)]
               else [])
              @ (case rest of
                   [] \<Rightarrow> []
                 | arg1 # others \<Rightarrow>
                     [atRange document (createExtraArgument document) (arg_range arg1)])))"
    using assms(1,2,3) present notMaintainer
    by (auto simp: validateInstruction_shape instructionProblems_def argumentProblems_def
          extraProblems_def stopSignalProblems_def split: list.splits)
  have predicate: "stopSignalValid v \<longleftrightarrow>
          take 3 v = ''SIG'' \<or> (\<forall>c \<in> set v. CHR ''0'' \<le> c \<and> c \<le> CHR ''9'')"
    by (simp add: stopSignalValid_def allDigits_iff)
  have factory: "code (createExtraArgument document s e) = EXTRA_ARGUMENT"
     "severity (createExtraArgument document s e) = Error"
     "code (createInvalidStopSignal document s e) = INVALID_STOPSIGNAL"
     "severity (createInvalidStopSignal document s e) = Error"
     "roundTrip document r \<longrightarrow>
          range (atRange document (createExtraArgument document) r) = r
          \<and> range (atRange document (createInvalidStopSignal document) r) = r"
    by (simp_all add: createExtraArgument_def createInvalidStopSignal_def createError_def
          atRange_def range_createDiagnostic)
  show ?thesis
    by (intro conjI) (fact shape predicate factory)+
qed

theorem single_argument_first_token_counterexample:
  "fst (checkArguments stopSignalTwoDocument [BACKSLASH] stopSignalTwo [])
   \<and> validateInstruction \<lparr> deprecatedMaintainer = WARNING \<rparr> [''STOPSIGNAL'']
        stopSignalTwoDocument [BACKSLASH] stopSignalTwo [] =
       Inr [createInvalidStopSignal stopSignalTwoDocument 11 14,
            createExtraArgument stopSignalTwoDocument 15 18]"
  by code_simp

theorem single_argument_extra_witness:
  "getKeyword fromTwo \<in> {''FROM'', ''WORKDIR'', ''USER'', ''STOPSIGNAL''}
   \<and> getKeyword fromTwo \<in> set [''FROM'']
   \<and> getKeyword fromTwo = getInstruction fromTwo
   \<and> fst (checkArguments fromTwoDocument [BACKSLASH] fromTwo [])
   \<and> length (getArgments fromTwo [BACKSLASH]) = 2
   \<and> roundTrip fromTwoDocument (rangeOf 0 10 0 15)
   \<and> validateInstruction \<lparr> deprecatedMaintainer = WARNING \<rparr> [''FROM''] fromTwoDocument
        [BACKSLASH] fromTwo [] = Inr [createExtraArgument fromTwoDocument 10 15]
   \<and> range (createExtraArgument fromTwoDocument 10 15) = rangeOf 0 10 0 15
   \<and> getKeyword stopSignalOne \<in> {''FROM'', ''WORKDIR'', ''USER'', ''STOPSIGNAL''}
   \<and> getKeyword stopSignalOne \<in> set [''STOPSIGNAL'']
   \<and> getKeyword stopSignalOne = getInstruction stopSignalOne
   \<and> fst (checkArguments stopSignalOneDocument [BACKSLASH] stopSignalOne [])
   \<and> length (getArgments stopSignalOne [BACKSLASH]) = 1
   \<and> roundTrip stopSignalOneDocument (rangeOf 0 11 0 14)
   \<and> validateInstruction \<lparr> deprecatedMaintainer = WARNING \<rparr> [''STOPSIGNAL'']
        stopSignalOneDocument [BACKSLASH] stopSignalOne []
       = Inr [createInvalidStopSignal stopSignalOneDocument 11 14]
   \<and> range (createInvalidStopSignal stopSignalOneDocument 11 14) = rangeOf 0 11 0 14"
proof -
  have h: "getKeyword fromTwo \<in> {''FROM'', ''WORKDIR'', ''USER'', ''STOPSIGNAL''}"
    "getKeyword fromTwo \<in> set [''FROM'']"
    "getKeyword fromTwo = getInstruction fromTwo"
    "fst (checkArguments fromTwoDocument [BACKSLASH] fromTwo [])"
    "roundTrip fromTwoDocument (rangeOf 0 10 0 15)"
    "length (getArgments fromTwo [BACKSLASH]) = 2"
    by code_simp+
  have g: "getKeyword stopSignalOne \<in> {''FROM'', ''WORKDIR'', ''USER'', ''STOPSIGNAL''}"
    "getKeyword stopSignalOne \<in> set [''STOPSIGNAL'']"
    "getKeyword stopSignalOne = getInstruction stopSignalOne"
    "fst (checkArguments stopSignalOneDocument [BACKSLASH] stopSignalOne [])"
    "roundTrip stopSignalOneDocument (rangeOf 0 11 0 14)"
    "length (getArgments stopSignalOne [BACKSLASH]) = 1"
    by code_simp+
  have args: "getArgments fromTwo [BACKSLASH] =
      [\<lparr> arg_value = ''node'', arg_range = rangeOf 0 5 0 9 \<rparr>,
       \<lparr> arg_value = ''node2'', arg_range = rangeOf 0 10 0 15 \<rparr>]"
    "getArgments stopSignalOne [BACKSLASH] =
      [\<lparr> arg_value = ''abc'', arg_range = rangeOf 0 11 0 14 \<rparr>]"
    by (simp_all add: fromTwo_def stopSignalOne_def)
  have ev: "getKeyword fromTwo \<noteq> ''STOPSIGNAL''"
    "atRange fromTwoDocument (createExtraArgument fromTwoDocument) (rangeOf 0 10 0 15)
       = createExtraArgument fromTwoDocument 10 15"
    "getKeyword stopSignalOne = ''STOPSIGNAL''"
    "\<not> stopSignalValid ''abc''"
    "atRange stopSignalOneDocument (createInvalidStopSignal stopSignalOneDocument)
       (rangeOf 0 11 0 14) = createInvalidStopSignal stopSignalOneDocument 11 14"
    by code_simp+
  note t1 = single_argument_extra [OF h(1) h(2) h(3) h(4),
      of "\<lparr> deprecatedMaintainer = WARNING \<rparr>" "[]" 0 0 "rangeOf 0 10 0 15"]
  note t2 = single_argument_extra [OF g(1) g(2) g(3) g(4),
      of "\<lparr> deprecatedMaintainer = WARNING \<rparr>" "[]" 0 0 "rangeOf 0 11 0 14"]
  have c1: "validateInstruction \<lparr> deprecatedMaintainer = WARNING \<rparr> [''FROM''] fromTwoDocument
        [BACKSLASH] fromTwo [] = Inr [createExtraArgument fromTwoDocument 10 15]"
    using t1 [THEN conjunct1] by (simp add: args ev)
  have c2: "range (createExtraArgument fromTwoDocument 10 15) = rangeOf 0 10 0 15"
    using t1 h(5) by (simp add: ev)
  have c3: "validateInstruction \<lparr> deprecatedMaintainer = WARNING \<rparr> [''STOPSIGNAL'']
        stopSignalOneDocument [BACKSLASH] stopSignalOne []
       = Inr [createInvalidStopSignal stopSignalOneDocument 11 14]"
    using t2 [THEN conjunct1] by (simp add: args ev)
  have c4: "range (createInvalidStopSignal stopSignalOneDocument 11 14) = rangeOf 0 11 0 14"
    using t2 g(5) by (simp add: ev)
  show ?thesis
    by (intro conjI) (fact h g c1 c2 c3 c4)+
qed

section \<open>The ports of EXPOSE\<close>

lemma digitChar: "(c < CHR ''0'' \<or> CHR ''9'' < c) \<longleftrightarrow> \<not> (CHR ''0'' \<le> c \<and> c \<le> CHR ''9'')"
  by (simp add: not_le)

lemma portCharacters_iff:
  "portCharacters v \<longleftrightarrow> (\<forall>c \<in> set v. c = CHR ''-'' \<or> (CHR ''0'' \<le> c \<and> c \<le> CHR ''9''))"
  by (induction v) (auto simp: digitChar)

lemma exposeValid_iff:
  "exposeValid v \<longleftrightarrow>
     (\<forall>c \<in> set v. c = CHR ''-'' \<or> (CHR ''0'' \<le> c \<and> c \<le> CHR ''9''))
     \<and> (v \<noteq> [] \<longrightarrow> hd v \<noteq> CHR ''-'' \<and> last v \<noteq> CHR ''-'')"
proof (cases "v = []")
  case True
  then show ?thesis by (simp add: exposeValid_def charAt_def)
next
  case False
  have n: "nat (int (length v) - 1) = length v - 1"
    by simp
  from False have "charAt v 0 = [hd v]" "charAt v (int (length v) - 1) = [last v]"
    by (simp_all add: charAt_def hd_conv_nth last_conv_nth n)
  with False show ?thesis
    by (simp add: exposeValid_def portCharacters_iff)
qed

text \<open>A replacement without a dollar sign is inserted as it is.\<close>

lemma getSubstitution_plain: "CHR ''$'' \<notin> set p \<Longrightarrow> getSubstitution m b a p = p"
  by (induction m b a p rule: getSubstitution.induct) auto

lemma message_createInvalidPort:
  "CHR ''$'' \<notin> set port \<Longrightarrow>
     message (createInvalidPort document s e port) = Some (''Invalid containerPort: '' @ port)"
proof -
  assume plain: "CHR ''$'' \<notin> set port"
  have t: "map_of dockerProblems ''invalidPort'' = Some ''Invalid containerPort: ${0}''"
    by code_simp
  have f: "findFirst ''${0}'' ''Invalid containerPort: ${0}'' = Some (''Invalid containerPort: '', [])"
    by code_simp
  show ?thesis
    by (simp add: createInvalidPort_def createError_def getDiagnosticMessage_InvalidPort_def
          formatMessage_def t replace_def f getSubstitution_plain [OF plain])
qed

text \<open>
  The tokens of an EXPOSE instruction that passes the argument-presence check are checked
  one by one.  A token is valid exactly when each of its characters is a digit or a
  hyphen and its first and last characters are not hyphens.  For each token that is not
  valid, in order, one INVALID_PORT error is added over the token's range, built with the
  token as the argument of its message; valid tokens add nothing.  So \<open>8080\<close> and
  \<open>9090\<close> are valid, and \<open>-80\<close> and \<open>80-\<close> are not.  The message ends with the token
  when the token has no dollar sign.
\<close>

lemma expose_ports:
  assumes "getKeyword instruction = ''EXPOSE''"
    and "getKeyword instruction \<in> set keywords"
    and "getKeyword instruction = getInstruction instruction"
    and "fst (checkArguments document esc instruction problems)"
  shows
    "validateInstruction settings keywords document esc instruction problems =
       Inr (problems @
         map (\<lambda>arg. atRange document (\<lambda>s e. createInvalidPort document s e (arg_value arg))
                      (arg_range arg))
           (filter (\<lambda>arg. \<not> exposeValid (arg_value arg)) (getArgments instruction esc)))
     \<and> (exposeValid v \<longleftrightarrow>
          (\<forall>c \<in> set v. c = CHR ''-'' \<or> (CHR ''0'' \<le> c \<and> c \<le> CHR ''9''))
          \<and> (v \<noteq> [] \<longrightarrow> hd v \<noteq> CHR ''-'' \<and> last v \<noteq> CHR ''-''))
     \<and> exposeValid ''8080'' \<and> exposeValid ''9090''
     \<and> \<not> exposeValid ''-80'' \<and> \<not> exposeValid ''80-''
     \<and> code (createInvalidPort document s e v) = INVALID_PORT
     \<and> severity (createInvalidPort document s e v) = Error
     \<and> (CHR ''$'' \<notin> set v \<longrightarrow>
          message (createInvalidPort document s e v) = Some (''Invalid containerPort: '' @ v))
     \<and> (roundTrip document r \<longrightarrow>
          range (atRange document (\<lambda>s e. createInvalidPort document s e v) r) = r)"
proof -
  from assms(4) have present: "\<not> blankArguments esc (argumentsOf instruction)"
    by (simp add: checkArguments_blank split: if_splits)
  from assms(1) have notMaintainer: "maintainerProblems settings document instruction = []"
    by (auto simp: maintainerProblems_def)
  have shape: "validateInstruction settings keywords document esc instruction problems =
       Inr (problems @
         map (\<lambda>arg. atRange document (\<lambda>s e. createInvalidPort document s e (arg_value arg))
                      (arg_range arg))
           (filter (\<lambda>arg. \<not> exposeValid (arg_value arg)) (getArgments instruction esc)))"
    using assms(1,2,3) present notMaintainer
    by (auto simp: validateInstruction_shape instructionProblems_def argumentProblems_def
          portProblems_def)
  have examples: "exposeValid ''8080''" "exposeValid ''9090''"
     "\<not> exposeValid ''-80''" "\<not> exposeValid ''80-''"
    by code_simp+
  have t: "map_of dockerProblems ''invalidPort'' = Some ''Invalid containerPort: ${0}''"
    by code_simp
  have factory: "code (createInvalidPort document s e v) = INVALID_PORT"
     "severity (createInvalidPort document s e v) = Error"
     "roundTrip document r \<longrightarrow>
          range (atRange document (\<lambda>s e. createInvalidPort document s e v) r) = r"
    by (simp_all add: createInvalidPort_def createError_def atRange_def range_createDiagnostic
          getDiagnosticMessage_InvalidPort_def t)
  have plain: "CHR ''$'' \<notin> set v \<longrightarrow>
          message (createInvalidPort document s e v) = Some (''Invalid containerPort: '' @ v)"
    by (simp add: message_createInvalidPort)
  note valid = exposeValid_iff [of v]
  show ?thesis
    by (intro conjI) (fact shape valid examples factory plain)+
qed

lemma expose_ports_example:
  "getKeyword exposeTwo = ''EXPOSE''
   \<and> getKeyword exposeTwo \<in> set [''EXPOSE'']
   \<and> getKeyword exposeTwo = getInstruction exposeTwo
   \<and> fst (checkArguments exposeTwoDocument [BACKSLASH] exposeTwo [])
   \<and> roundTrip exposeTwoDocument (rangeOf 0 12 0 15)
   \<and> CHR ''$'' \<notin> set ''-80''
   \<and> validateInstruction \<lparr> deprecatedMaintainer = WARNING \<rparr> [''EXPOSE''] exposeTwoDocument
        [BACKSLASH] exposeTwo [] = Inr [createInvalidPort exposeTwoDocument 12 15 ''-80'']
   \<and> message (createInvalidPort exposeTwoDocument 12 15 ''-80'')
       = Some ''Invalid containerPort: -80''
   \<and> range (createInvalidPort exposeTwoDocument 12 15 ''-80'') = rangeOf 0 12 0 15"
proof -
  have h: "getKeyword exposeTwo = ''EXPOSE''"
    "getKeyword exposeTwo \<in> set [''EXPOSE'']"
    "getKeyword exposeTwo = getInstruction exposeTwo"
    "fst (checkArguments exposeTwoDocument [BACKSLASH] exposeTwo [])"
    "roundTrip exposeTwoDocument (rangeOf 0 12 0 15)"
    "CHR ''$'' \<notin> set ''-80''"
    by code_simp+
  have ev: "map (\<lambda>arg. atRange exposeTwoDocument
                    (\<lambda>s e. createInvalidPort exposeTwoDocument s e (arg_value arg)) (arg_range arg))
       (filter (\<lambda>arg. \<not> exposeValid (arg_value arg)) (getArgments exposeTwo [BACKSLASH]))
     = [createInvalidPort exposeTwoDocument 12 15 ''-80'']"
    "atRange exposeTwoDocument (\<lambda>s e. createInvalidPort exposeTwoDocument s e ''-80'')
       (rangeOf 0 12 0 15) = createInvalidPort exposeTwoDocument 12 15 ''-80''"
    by code_simp+
  note t = expose_ports [OF h(1) h(2) h(3) h(4),
      of "\<lparr> deprecatedMaintainer = WARNING \<rparr>" "''-80''" 12 15 "rangeOf 0 12 0 15"]
  have c1: "validateInstruction \<lparr> deprecatedMaintainer = WARNING \<rparr> [''EXPOSE'']
        exposeTwoDocument [BACKSLASH] exposeTwo []
          = Inr [createInvalidPort exposeTwoDocument 12 15 ''-80'']"
    using t by (simp add: ev)
  have c2: "message (createInvalidPort exposeTwoDocument 12 15 ''-80'')
       = Some ''Invalid containerPort: -80''"
    using t by simp
  have c3: "range (createInvalidPort exposeTwoDocument 12 15 ''-80'') = rangeOf 0 12 0 15"
    using t h(5) by (simp add: ev)
  show ?thesis
    by (intro conjI) (fact h c1 c2 c3)+
qed

text \<open>
  C8.  For every EXPOSE instruction that passes the argument-presence check, each token
  that is not valid gets one INVALID_PORT error, at the token's range, whose message
  cites the token.  The code does not do this for the instruction \<open>EXPOSE $$\<close>: its
  token is not valid, and the one INVALID_PORT error that is added over the token's range
  has the message \<open>Invalid containerPort: $\<close>, which is not the message with the token
  \<open>$$\<close>.  The message is built by \<open>String.prototype.replace\<close> with the token as the
  replacement, and there two dollar signs stand for one.
\<close>

theorem expose_dollar_token:
  "getKeyword exposeDollar = ''EXPOSE''
   \<and> getKeyword exposeDollar \<in> set [''FROM'', ''EXPOSE'']
   \<and> fst (checkArguments exposeDollarDocument [BACKSLASH] exposeDollar [])
   \<and> \<not> exposeValid ''$$''
   \<and> validateInstruction \<lparr> deprecatedMaintainer = WARNING \<rparr> [''FROM'', ''EXPOSE'']
        exposeDollarDocument [BACKSLASH] exposeDollar []
       = Inr [createInvalidPort exposeDollarDocument 7 9 ''$$'']
   \<and> validate 3 asciiUpperCase \<lparr> deprecatedMaintainer = WARNING \<rparr> [''FROM'', ''EXPOSE'']
        exposeDollarDocument exposeDollarDockerfile
       = Some (Inr [createNoSourceImage exposeDollarDocument 0 6,
                    createInvalidPort exposeDollarDocument 7 9 ''$$''])
   \<and> code (createInvalidPort exposeDollarDocument 7 9 ''$$'') = INVALID_PORT
   \<and> severity (createInvalidPort exposeDollarDocument 7 9 ''$$'') = Error
   \<and> range (createInvalidPort exposeDollarDocument 7 9 ''$$'') = rangeOf 0 7 0 9
   \<and> message (createInvalidPort exposeDollarDocument 7 9 ''$$'')
       = Some ''Invalid containerPort: $''
   \<and> message (createInvalidPort exposeDollarDocument 7 9 ''$$'')
       \<noteq> Some (''Invalid containerPort: '' @ ''$$'')"
  by code_simp

section \<open>The deprecated MAINTAINER\<close>

text \<open>
  C10.  For a MAINTAINER instruction that is in the whitelist and written in upper case,
  when the setting \<open>deprecatedMaintainer\<close> is \<open>WARNING\<close> or \<open>ERROR\<close>, the checks add
  first one DEPRECATED_MAINTAINER diagnostic, of that severity, and after it at most the
  MISSING_ARGUMENT error.  The range of the DEPRECATED_MAINTAINER diagnostic is empty:
  its start and its end are both the position of the offset of the start of the
  instruction's range (that start itself, when the document converts it back); the end
  of the instruction's range is not used.
\<close>

theorem maintainer_deprecated_range:
  assumes "getKeyword instruction = ''MAINTAINER''"
    and "getKeyword instruction \<in> set keywords"
    and "getKeyword instruction = getInstruction instruction"
    and "deprecatedMaintainer settings = WARNING \<or> deprecatedMaintainer settings = ERROR"
  shows
    "validateInstruction settings keywords document esc instruction problems =
       Inr (problems
            @ [createDiagnostic document
                 (if deprecatedMaintainer settings = ERROR then Error else Warning)
                 (offsetAt document (range_start (getInstructionRange instruction)))
                 (offsetAt document (range_start (getInstructionRange instruction)))
                 getDiagnosticMessage_DeprecatedMaintainer (Some DEPRECATED_MAINTAINER)]
            @ (if blankArguments esc (argumentsOf instruction)
               then [atRange document (createMissingArgument document)
                       (getInstructionRange instruction)]
               else []))
     \<and> code (createDiagnostic document sev s s m (Some DEPRECATED_MAINTAINER))
           = DEPRECATED_MAINTAINER
     \<and> code (createMissingArgument document s e) \<noteq> DEPRECATED_MAINTAINER
     \<and> range_start (range (createDiagnostic document sev s s m c))
           = range_end (range (createDiagnostic document sev s s m c))
     \<and> range_start (range (createDiagnostic document sev s s m c)) = positionAt document s
     \<and> (positionAt document (offsetAt document p) = p \<longrightarrow>
          range (createDiagnostic document sev (offsetAt document p) (offsetAt document p) m c)
            = \<lparr> range_start = p, range_end = p \<rparr>)"
proof -
  from assms(1,4) have m: "maintainerProblems settings document instruction =
      [createDiagnostic document
         (if deprecatedMaintainer settings = ERROR then Error else Warning)
         (offsetAt document (range_start (getInstructionRange instruction)))
         (offsetAt document (range_start (getInstructionRange instruction)))
         getDiagnosticMessage_DeprecatedMaintainer (Some DEPRECATED_MAINTAINER)]"
    by (auto simp: maintainerProblems_eq)
  from assms(1) have a: "argumentProblems document esc instruction = []"
    by (simp add: argumentProblems_def)
  have shape: "validateInstruction settings keywords document esc instruction problems =
       Inr (problems
            @ [createDiagnostic document
                 (if deprecatedMaintainer settings = ERROR then Error else Warning)
                 (offsetAt document (range_start (getInstructionRange instruction)))
                 (offsetAt document (range_start (getInstructionRange instruction)))
                 getDiagnosticMessage_DeprecatedMaintainer (Some DEPRECATED_MAINTAINER)]
            @ (if blankArguments esc (argumentsOf instruction)
               then [atRange document (createMissingArgument document)
                       (getInstructionRange instruction)]
               else []))"
    using assms(2,3) m a
    by (auto simp: validateInstruction_shape instructionProblems_def)
  have factory: "code (createDiagnostic document sev s s m (Some DEPRECATED_MAINTAINER))
           = DEPRECATED_MAINTAINER"
     "code (createMissingArgument document s e) \<noteq> DEPRECATED_MAINTAINER"
     "range_start (range (createDiagnostic document sev s s m c))
           = range_end (range (createDiagnostic document sev s s m c))"
     "range_start (range (createDiagnostic document sev s s m c)) = positionAt document s"
     "positionAt document (offsetAt document p) = p \<longrightarrow>
          range (createDiagnostic document sev (offsetAt document p) (offsetAt document p) m c)
            = \<lparr> range_start = p, range_end = p \<rparr>"
    by (simp_all add: createDiagnostic_def createMissingArgument_def createError_def)
  show ?thesis
    by (intro conjI) (fact shape factory)+
qed

theorem maintainer_deprecated_range_witness:
  "getKeyword maintainerMe = ''MAINTAINER''
   \<and> getKeyword maintainerMe \<in> set [''MAINTAINER'']
   \<and> getKeyword maintainerMe = getInstruction maintainerMe
   \<and> deprecatedMaintainer \<lparr> deprecatedMaintainer = WARNING \<rparr> = WARNING
   \<and> positionAt maintainerMeDocument
        (offsetAt maintainerMeDocument \<lparr> line = 0, character = 0 \<rparr>)
        = \<lparr> line = 0, character = 0 \<rparr>
   \<and> validateInstruction \<lparr> deprecatedMaintainer = WARNING \<rparr> [''MAINTAINER'']
        maintainerMeDocument [BACKSLASH] maintainerMe [] =
       Inr [createDiagnostic maintainerMeDocument Warning 0 0
              (Some ''MAINTAINER has been deprecated'') (Some DEPRECATED_MAINTAINER)]
   \<and> range (createDiagnostic maintainerMeDocument Warning 0 0
              (Some ''MAINTAINER has been deprecated'') (Some DEPRECATED_MAINTAINER))
       = rangeOf 0 0 0 0"
proof -
  have h: "getKeyword maintainerMe = ''MAINTAINER''"
    "getKeyword maintainerMe \<in> set [''MAINTAINER'']"
    "getKeyword maintainerMe = getInstruction maintainerMe"
    "positionAt maintainerMeDocument
        (offsetAt maintainerMeDocument \<lparr> line = 0, character = 0 \<rparr>)
        = \<lparr> line = 0, character = 0 \<rparr>"
    by code_simp+
  have s: "deprecatedMaintainer \<lparr> deprecatedMaintainer = WARNING \<rparr> = WARNING"
    by simp
  then have s': "deprecatedMaintainer \<lparr> deprecatedMaintainer = WARNING \<rparr> = WARNING
      \<or> deprecatedMaintainer \<lparr> deprecatedMaintainer = WARNING \<rparr> = ERROR"
    by simp
  have ev: "offsetAt maintainerMeDocument (range_start (getInstructionRange maintainerMe)) = 0"
    "offsetAt maintainerMeDocument \<lparr> line = 0, character = 0 \<rparr> = 0"
    "\<not> blankArguments [BACKSLASH] (argumentsOf maintainerMe)"
    "getDiagnosticMessage_DeprecatedMaintainer = Some ''MAINTAINER has been deprecated''"
    by code_simp+
  note t = maintainer_deprecated_range [OF h(1) h(2) h(3) s', of maintainerMeDocument
      "[BACKSLASH]" "[]" Warning 0 "Some ''MAINTAINER has been deprecated''" _
      "Some DEPRECATED_MAINTAINER" "\<lparr> line = 0, character = 0 \<rparr>"]
  have c1: "validateInstruction \<lparr> deprecatedMaintainer = WARNING \<rparr> [''MAINTAINER'']
        maintainerMeDocument [BACKSLASH] maintainerMe [] =
       Inr [createDiagnostic maintainerMeDocument Warning 0 0
              (Some ''MAINTAINER has been deprecated'') (Some DEPRECATED_MAINTAINER)]"
    using t by (simp add: ev)
  have c2: "range (createDiagnostic maintainerMeDocument Warning 0 0
              (Some ''MAINTAINER has been deprecated'') (Some DEPRECATED_MAINTAINER))
       = rangeOf 0 0 0 0"
    using t h(4) by (simp add: ev rangeOf_def)
  show ?thesis
    by (intro conjI) (fact h s c1 c2)+
qed

section \<open>The JSON array: properties\<close>

lemma parseJSON_loop_flagged:
  "flagged \<Longrightarrow>
     snd (parseJSON_loop document esc text inString ended lastOffset expectComma flagged i problems)
       = problems"
proof (induction document esc "text" inString ended lastOffset expectComma flagged i problems
       rule: parseJSON_loop.induct)
  case (1 doc esc tx inString ended lastOffset expectComma flagged i problems)
  show ?case
    apply (subst parseJSON_loop.simps)
    using 1 by auto
qed

lemma parseJSON_loop_adds:
  "\<exists>ds. snd (parseJSON_loop document esc text inString ended lastOffset expectComma flagged
                i problems) = problems @ ds
        \<and> length ds \<le> 1
        \<and> (\<forall>d \<in> set ds. \<exists>s. d = createUnexpectedToken document s (s + 1))"
proof (induction document esc "text" inString ended lastOffset expectComma flagged i problems
       rule: parseJSON_loop.induct)
  case (1 doc esc tx inString ended lastOffset expectComma flagged i problems)
  show ?case
    apply (subst parseJSON_loop.simps)
    using 1 by (auto simp: parseJSON_loop_flagged)
qed

lemma shouldSkipNewline_inside:
  "shouldSkipNewline text i esc \<Longrightarrow> i + 1 < int (length text) \<and> (esc = [] \<or> 0 \<le> i)"
  by (auto simp: shouldSkipNewline_def charAt_def split: if_splits)

text \<open>
  C3.  One run of \<open>parseJSON\<close> adds at most one diagnostic, an UNEXPECTED_TOKEN error.
  At a double quote, when a comma is expected and nothing is flagged, it adds the error
  at the offset of the quote and returns that offset at once.  At any other character
  that is not allowed outside a string, when nothing is flagged, it adds the error at the
  offset of the character and sets \<open>flagged\<close>; and once \<open>flagged\<close> is set, the run
  adds nothing more.  The error built at an offset is an error with the message
  \<open>Unexpected token\<close> whose range starts at the position of that offset and ends at
  the position of the next offset.
\<close>

theorem parseJSON_single_token:
  assumes "esc = [BACKSLASH] \<or> esc = [BACKTICK]"
  shows
    "(\<exists>ds. snd (parseJSON document esc offset text problems) = problems @ ds
           \<and> length ds \<le> 1
           \<and> (\<forall>d \<in> set ds. \<exists>s. d = createUnexpectedToken document s (s + 1)))
     \<and> (i < int (length text) \<and> charAt text i = [DQUOTE] \<and> expectComma \<and> \<not> flagged \<longrightarrow>
          parseJSON_loop document esc text inString ended lastOffset expectComma flagged i
              problems
            = (i, problems @ [createUnexpectedToken document i (i + 1)]))
     \<and> (i < int (length text) \<and> \<not> inString \<and> \<not> flagged \<and> \<not> shouldSkipNewline text i esc
          \<and> charAt text i \<notin> {[DQUOTE], '' '', [TAB], '']'', [CR], [LF], '',''} \<longrightarrow>
          parseJSON_loop document esc text inString ended lastOffset expectComma flagged i
              problems
            = parseJSON_loop document esc text inString ended i expectComma True (i + 1)
                (problems @ [createUnexpectedToken document i (i + 1)]))
     \<and> (flagged \<longrightarrow>
          snd (parseJSON_loop document esc text inString ended lastOffset expectComma flagged i
                 problems) = problems)
     \<and> code (createUnexpectedToken document s e) = DEFAULT
     \<and> severity (createUnexpectedToken document s e) = Error
     \<and> message (createUnexpectedToken document s e) = Some ''Unexpected token''
     \<and> range (createUnexpectedToken document s e)
         = \<lparr> range_start = positionAt document s, range_end = positionAt document e \<rparr>"
proof -
  have once: "\<exists>ds. snd (parseJSON document esc offset text problems) = problems @ ds
           \<and> length ds \<le> 1
           \<and> (\<forall>d \<in> set ds. \<exists>s. d = createUnexpectedToken document s (s + 1))"
    unfolding parseJSON_def by (rule parseJSON_loop_adds)
  have quote: "i < int (length text) \<and> charAt text i = [DQUOTE] \<and> expectComma \<and> \<not> flagged \<longrightarrow>
          parseJSON_loop document esc text inString ended lastOffset expectComma flagged i
              problems
            = (i, problems @ [createUnexpectedToken document i (i + 1)])"
    using assms
    by (subst parseJSON_loop.simps) (auto simp: shouldSkipNewline_def)
  have other: "i < int (length text) \<and> \<not> inString \<and> \<not> flagged \<and> \<not> shouldSkipNewline text i esc
          \<and> charAt text i \<notin> {[DQUOTE], '' '', [TAB], '']'', [CR], [LF], '',''} \<longrightarrow>
          parseJSON_loop document esc text inString ended lastOffset expectComma flagged i
              problems
            = parseJSON_loop document esc text inString ended i expectComma True (i + 1)
                (problems @ [createUnexpectedToken document i (i + 1)])"
    by (subst parseJSON_loop.simps) auto
  have after: "flagged \<longrightarrow>
          snd (parseJSON_loop document esc text inString ended lastOffset expectComma flagged i
                 problems) = problems"
    by (simp add: parseJSON_loop_flagged)
  have m: "map_of dockerProblems ''unexpectedToken'' = Some ''Unexpected token''"
    by code_simp
  have factory: "code (createUnexpectedToken document s e) = DEFAULT"
     "severity (createUnexpectedToken document s e) = Error"
     "message (createUnexpectedToken document s e) = Some ''Unexpected token''"
     "range (createUnexpectedToken document s e)
         = \<lparr> range_start = positionAt document s, range_end = positionAt document e \<rparr>"
    by (simp_all add: createUnexpectedToken_def createError_def
          getDiagnosticMessage_UnexpectedToken_def m)
       (simp add: createDiagnostic_def)
  show ?thesis
    by (intro conjI) (fact once quote other after factory)+
qed

theorem parseJSON_single_token_witness:
  "9 < int (length missingCommaArray) \<and> charAt missingCommaArray 9 = [DQUOTE]
   \<and> parseJSON_loop (textDocument missingCommaArray) [BACKSLASH] missingCommaArray
        False False 7 True False 9 []
       = (9, [createUnexpectedToken (textDocument missingCommaArray) 9 10])
   \<and> parseJSON (textDocument missingCommaArray) [BACKSLASH] 0 missingCommaArray []
       = (9, [createUnexpectedToken (textDocument missingCommaArray) 9 10])
   \<and> parseJSON (textDocument unquotedArray) [BACKSLASH] 0 unquotedArray []
       = (7, [createUnexpectedToken (textDocument unquotedArray) 1 2])
   \<and> range (createUnexpectedToken (textDocument missingCommaArray) 9 10) = rangeOf 0 9 0 10
   \<and> range (createUnexpectedToken (textDocument unquotedArray) 1 2) = rangeOf 0 1 0 2"
proof -
  have h: "9 < int (length missingCommaArray)" "charAt missingCommaArray 9 = [DQUOTE]"
    by code_simp+
  have p: "positionAt (textDocument missingCommaArray) 9 = \<lparr> line = 0, character = 9 \<rparr>"
    "positionAt (textDocument missingCommaArray) 10 = \<lparr> line = 0, character = 10 \<rparr>"
    "positionAt (textDocument unquotedArray) 1 = \<lparr> line = 0, character = 1 \<rparr>"
    "positionAt (textDocument unquotedArray) 2 = \<lparr> line = 0, character = 2 \<rparr>"
    by code_simp+
  have c3: "range (createUnexpectedToken (textDocument missingCommaArray) 9 10)
      = rangeOf 0 9 0 10"
    using parseJSON_single_token [of "[BACKSLASH]" "textDocument missingCommaArray" 0
      missingCommaArray "[]" 9 True False False False 7 9 10]
    by (simp add: p rangeOf_def)
  have c4: "range (createUnexpectedToken (textDocument unquotedArray) 1 2) = rangeOf 0 1 0 2"
    using parseJSON_single_token [of "[BACKSLASH]" "textDocument unquotedArray" 0
      unquotedArray "[]" 9 True False False False 7 1 2]
    by (simp add: p rangeOf_def)
  note t = parseJSON_single_token [of "[BACKSLASH]" "textDocument missingCommaArray" 0
      missingCommaArray "[]" 9 True False False False 7]
  have c1: "parseJSON_loop (textDocument missingCommaArray) [BACKSLASH] missingCommaArray
        False False 7 True False 9 []
       = (9, [createUnexpectedToken (textDocument missingCommaArray) 9 10])"
    using t h by simp
  have c2: "parseJSON (textDocument missingCommaArray) [BACKSLASH] 0 missingCommaArray []
       = (9, [createUnexpectedToken (textDocument missingCommaArray) 9 10])"
    "parseJSON (textDocument unquotedArray) [BACKSLASH] 0 unquotedArray []
       = (7, [createUnexpectedToken (textDocument unquotedArray) 1 2])"
    by code_simp+
  show ?thesis
    by (intro conjI) (fact h c1 c2 c3 c4)+
qed

text \<open>
  C4, as amended.  In the loop of \<open>parseJSON\<close>, outside a double-quoted string an escape
  character immediately followed by a line break character is skipped with it (and with
  the line feed of a carriage return and line feed pair): the loop goes on behind them
  and nothing else changes.  Inside a double-quoted string it is not skipped: the escape
  character is an ordinary character of the string, and the line break character behind
  it ends the run at its offset, with an UNEXPECTED_TOKEN error at the escape character
  unless the closing bracket was seen or a token is flagged.
\<close>

theorem parseJSON_continuation:
  assumes "shouldSkipNewline text i esc"
    and "esc = [BACKSLASH] \<or> esc = [BACKTICK]"
  shows
    "parseJSON_loop document esc text False ended lastOffset expectComma flagged i problems
       = parseJSON_loop document esc text False ended lastOffset expectComma flagged
           (afterContinuation text i + 1) problems
     \<and> afterContinuation text i
         = (if charAt text (i + 1) = [CR] \<and> charAt text (i + 2) = [LF] then i + 2 else i + 1)
     \<and> parseJSON_loop document esc text True ended lastOffset expectComma flagged i problems
         = (i + 1,
            if \<not> ended \<and> \<not> flagged
            then problems @ [createUnexpectedToken document i (i + 1)] else problems)"
proof -
  from assms have inside: "i + 1 < int (length text)" "0 \<le> i"
    using shouldSkipNewline_inside [of "text" i esc] by auto
  from assms have here: "charAt text i = esc"
    and behind: "charAt text (i + 1) = [CR] \<or> charAt text (i + 1) = [LF]"
    by (simp_all add: shouldSkipNewline_def)
  have outside: "parseJSON_loop document esc text False ended lastOffset expectComma flagged
        i problems
       = parseJSON_loop document esc text False ended lastOffset expectComma flagged
           (afterContinuation text i + 1) problems"
    using assms(1) inside by (subst parseJSON_loop.simps) simp
  have skip: "afterContinuation text i
         = (if charAt text (i + 1) = [CR] \<and> charAt text (i + 2) = [LF] then i + 2 else i + 1)"
    by (simp add: afterContinuation_def Let_def add.assoc)
  have first: "parseJSON_loop document esc text True ended lastOffset expectComma flagged
        i problems
      = parseJSON_loop document esc text True ended i expectComma flagged (i + 1) problems"
    using assms(2) inside here by (subst parseJSON_loop.simps) auto
  have second: "parseJSON_loop document esc text True ended i expectComma flagged (i + 1)
        problems
      = (i + 1,
         if \<not> ended \<and> \<not> flagged
         then problems @ [createUnexpectedToken document i (i + 1)] else problems)"
    using inside behind by (subst parseJSON_loop.simps) auto
  from first second have string: "parseJSON_loop document esc text True ended lastOffset
        expectComma flagged i problems
      = (i + 1,
         if \<not> ended \<and> \<not> flagged
         then problems @ [createUnexpectedToken document i (i + 1)] else problems)"
    by simp
  show ?thesis
    by (intro conjI) (fact outside skip string)+
qed

theorem parseJSON_string_continuation_counterexample:
  "shouldSkipNewline continuedStringArray 3 [BACKSLASH]
   \<and> parseJSON (textDocument continuedStringArray) [BACKSLASH] 0 continuedStringArray []
       = (4, [createUnexpectedToken (textDocument continuedStringArray) 3 4])
   \<and> parseJSON_loop (textDocument continuedStringArray) [BACKSLASH] continuedStringArray
        True False 2 False False 3 []
       \<noteq> parseJSON_loop (textDocument continuedStringArray) [BACKSLASH] continuedStringArray
        True False 2 False False 5 []"
  by code_simp

theorem parseJSON_continuation_witness:
  "shouldSkipNewline continuedArray 4 [BACKSLASH]
   \<and> shouldSkipNewline continuedStringArray 3 [BACKSLASH]
   \<and> parseJSON_loop (textDocument continuedArray) [BACKSLASH] continuedArray
        False False 3 True False 4 []
       = parseJSON_loop (textDocument continuedArray) [BACKSLASH] continuedArray
        False False 3 True False 6 []
   \<and> parseJSON (textDocument continuedArray) [BACKSLASH] 0 continuedArray [] = (7, [])
   \<and> parseJSON_loop (textDocument continuedStringArray) [BACKSLASH] continuedStringArray
        True False 2 False False 3 []
       = (4, [createUnexpectedToken (textDocument continuedStringArray) 3 4])"
proof -
  have h: "shouldSkipNewline continuedArray 4 [BACKSLASH]"
    "shouldSkipNewline continuedStringArray 3 [BACKSLASH]"
    by code_simp+
  have e: "[BACKSLASH] = [BACKSLASH] \<or> [BACKSLASH] = [BACKTICK]"
    by simp
  have ev: "afterContinuation continuedArray 4 = 5"
    "parseJSON (textDocument continuedArray) [BACKSLASH] 0 continuedArray [] = (7, [])"
    by code_simp+
  note t1 = parseJSON_continuation [OF h(1) e, of "textDocument continuedArray" False 3 True
      False "[]"]
  note t2 = parseJSON_continuation [OF h(2) e, of "textDocument continuedStringArray" False 2
      False False "[]"]
  have c1: "parseJSON_loop (textDocument continuedArray) [BACKSLASH] continuedArray
        False False 3 True False 4 []
       = parseJSON_loop (textDocument continuedArray) [BACKSLASH] continuedArray
        False False 3 True False 6 []"
    using t1 by (simp add: ev)
  have c2: "parseJSON_loop (textDocument continuedStringArray) [BACKSLASH] continuedStringArray
        True False 2 False False 3 []
       = (4, [createUnexpectedToken (textDocument continuedStringArray) 3 4])"
    using t2 by simp
  show ?thesis
    by (intro conjI) (fact h c1 c2 ev)+
qed

section \<open>The scan of the lines adds unexpected tokens only\<close>

lemma addsTokens_refl: "addsTokens document problems problems"
  by (simp add: addsTokens_def)

lemma addsTokens_trans:
  "addsTokens document a b \<Longrightarrow> addsTokens document b c \<Longrightarrow> addsTokens document a c"
  by (fastforce simp: addsTokens_def)

lemma parseJSON_addsTokens:
  "addsTokens document problems (snd (parseJSON document esc offset text problems))"
  using parseJSON_loop_adds [of document esc "text" False False "-1" False False "offset + 1" problems]
  by (auto simp: addsTokens_def parseJSON_def)

lemma parseVOLUME_loop_addsTokens:
  "addsTokens document problems (snd (parseVOLUME_loop document esc text json i problems))"
proof (induction document esc "text" json i problems rule: parseVOLUME_loop.induct)
  case (1 doc esc tx json i problems)
  show ?case
    apply (subst parseVOLUME_loop.simps)
    using 1 by (simp add: addsTokens_refl parseJSON_addsTokens)
qed

lemma dispatch_addsTokens:
  "dispatch document keywords esc text i word j problems = Return out
     \<or> dispatch document keywords esc text i word j problems = Continue k out
   \<Longrightarrow> addsTokens document problems out"
  using parseVOLUME_loop_addsTokens [of document problems esc "text" True "j + 1"]
  by (auto simp: dispatch_def lineEnd_def parseVOLUME_def addsTokens_refl
           split: if_splits option.splits prod.splits)

lemma scanLine_addsTokens:
  "scanLine toUpperCase document keywords esc text i problems = Return out
     \<or> scanLine toUpperCase document keywords esc text i problems = Continue k out
   \<Longrightarrow> addsTokens document problems out"
  using dispatch_addsTokens [of document "keywords" esc "text" i _ _ problems out k]
  by (auto simp: scanLine_def lineEnd_def addsTokens_refl
           split: if_splits option.splits firstWord.splits)

lemma lineCheck_addsTokens:
  "lineCheck fuel toUpperCase document keywords esc text i problems = Some out
   \<Longrightarrow> addsTokens document problems out"
proof (induction fuel arbitrary: i problems)
  case 0
  then show ?case by simp
next
  case (Suc fuel)
  show ?case
  proof (cases "i < int (length text)")
    case False
    with Suc.prems show ?thesis by (simp add: addsTokens_refl)
  next
    case True
    show ?thesis
    proof (cases "scanLine toUpperCase document keywords esc text i problems")
      case (Return ps)
      with True Suc.prems have "ps = out" by simp
      with Return show ?thesis using scanLine_addsTokens by blast
    next
      case (Continue k ps)
      with True Suc.prems have "lineCheck fuel toUpperCase document keywords esc text (k + 1) ps = Some out"
        by simp
      then have "addsTokens document ps out" by (rule Suc.IH)
      moreover from Continue have "addsTokens document problems ps"
        using scanLine_addsTokens by blast
      ultimately show ?thesis using addsTokens_trans by blast
    qed
  qed
qed

section \<open>The source image\<close>

lemma noSourceImages_append [simp]:
  "noSourceImages (xs @ ys) = noSourceImages xs @ noSourceImages ys"
  by (simp add: noSourceImages_def)

lemma noSourceImages_Nil [simp]: "noSourceImages [] = []"
  by (simp add: noSourceImages_def)

lemma noSourceImages_none:
  "(\<And>x. x \<in> set xs \<Longrightarrow> code x \<noteq> NO_SOURCE_IMAGE) \<Longrightarrow> noSourceImages xs = []"
  by (simp add: noSourceImages_def filter_empty_conv)

lemma noSourceImages_parseDirective:
  "noSourceImages (snd (parseDirective dockerfile document [])) = []"
  by (rule noSourceImages_none)
     (auto simp: parseDirective_def Let_def createUnknownDirective_def
        createInvalidEscapeDirective_def createError_def split: option.splits if_splits)

lemma noSourceImages_instructionProblems:
  "noSourceImages (instructionProblems settings keywords document esc instruction) = []"
proof (rule noSourceImages_none)
  fix x
  assume "x \<in> set (instructionProblems settings keywords document esc instruction)"
  then show "code x \<noteq> NO_SOURCE_IMAGE"
    using code_maintainerProblems [of x settings document instruction]
          code_argumentProblems [of x document esc instruction]
    by (auto simp: instructionProblems_def atRange_def createUnknownInstruction_def
          createUppercaseInstruction_def createMissingArgument_def createError_def
          createWarning_def split: if_splits)
qed

lemma noSourceImages_instructions:
  "noSourceImages (concat (map (instructionProblems settings keywords document esc) instructions))
     = []"
  by (induction instructions) (simp_all add: noSourceImages_instructionProblems)

lemma noSourceImages_tokens:
  "addsTokens document problems out \<Longrightarrow> noSourceImages out = noSourceImages problems"
proof -
  assume "addsTokens document problems out"
  then obtain ds where ds: "out = problems @ ds"
    "\<forall>d \<in> set ds. \<exists>s. d = createUnexpectedToken document s (s + 1)"
    by (auto simp: addsTokens_def)
  have "noSourceImages ds = []"
  proof (rule noSourceImages_none)
    fix x
    assume "x \<in> set ds"
    with ds(2) obtain s where "x = createUnexpectedToken document s (s + 1)"
      by blast
    then show "code x \<noteq> NO_SOURCE_IMAGE"
      by (simp add: createUnexpectedToken_def createError_def)
  qed
  with ds(1) show ?thesis by simp
qed

lemma noSourceImageCheck_append:
  "noSourceImageCheck document instructions problems
     = problems @ noSourceImageCheck document instructions []"
  by (simp add: noSourceImageCheck_def split: list.splits)

lemma documentPass_shape:
  "snd (documentPass settings keywords document dockerfile) =
     Inr (noSourceImageCheck document (getInstructions dockerfile)
            (snd (parseDirective dockerfile document []))
          @ concat (map (instructionProblems settings keywords document
                           (escape (fst (parseDirective dockerfile document []))))
                      (getInstructions dockerfile)))"
  by (simp add: documentPass_def instructionLoop_shape split: prod.splits)

lemma validate_addsTokens:
  assumes "validate fuel toUpperCase settings keywords document dockerfile = Some r"
  shows "\<exists>problems out. snd (documentPass settings keywords document dockerfile) = Inr problems
           \<and> r = Inr out \<and> addsTokens document problems out"
proof -
  obtain parsed res where d: "documentPass settings keywords document dockerfile = (parsed, res)"
    by (cases "documentPass settings keywords document dockerfile")
  with documentPass_shape [of settings "keywords" document dockerfile]
  obtain problems where p: "res = Inr problems"
    by auto
  with d assms obtain out where
    "lineCheck fuel toUpperCase document keywords (escape parsed) (getText document) (dc parsed) problems
       = Some out" "r = Inr out"
    by (auto simp: validate_def)
  with d p show ?thesis
    using lineCheck_addsTokens by fastforce
qed

text \<open>
  When the list of instructions is empty, the problems of the pass over the instructions,
  and every list that \<open>validate\<close> returns, hold exactly one NO_SOURCE_IMAGE diagnostic,
  built at the offsets 0 and 0 (its range is from position (0,0) to (0,0) when that is
  the position of offset 0).  When the list is not empty and the keyword of its first
  instruction is not \<open>FROM\<close>, they hold exactly one NO_SOURCE_IMAGE diagnostic, built over
  the first instruction's range.  \<open>validate\<close> never raises.
\<close>

lemma no_source_image_returned:
  "(getInstructions dockerfile = [] \<longrightarrow>
      (\<exists>problems. snd (documentPass settings keywords document dockerfile) = Inr problems
         \<and> noSourceImages problems = [createNoSourceImage document 0 0])
      \<and> (validate fuel toUpperCase settings keywords document dockerfile = Some r \<longrightarrow>
           (\<exists>out. r = Inr out \<and> noSourceImages out = [createNoSourceImage document 0 0])))
   \<and> (getInstructions dockerfile = first # rest \<and> getKeyword first \<noteq> ''FROM'' \<longrightarrow>
      (\<exists>problems. snd (documentPass settings keywords document dockerfile) = Inr problems
         \<and> noSourceImages problems =
             [atRange document (createNoSourceImage document) (getInstructionRange first)])
      \<and> (validate fuel toUpperCase settings keywords document dockerfile = Some r \<longrightarrow>
           (\<exists>out. r = Inr out \<and> noSourceImages out =
             [atRange document (createNoSourceImage document) (getInstructionRange first)])))
   \<and> noSourceImages out = filter (\<lambda>d. code d = NO_SOURCE_IMAGE) out
   \<and> code (createNoSourceImage document s e) = NO_SOURCE_IMAGE
   \<and> severity (createNoSourceImage document s e) = Error
   \<and> (positionAt document 0 = \<lparr> line = 0, character = 0 \<rparr> \<longrightarrow>
        range (createNoSourceImage document 0 0) = rangeOf 0 0 0 0)
   \<and> (roundTrip document r' \<longrightarrow>
        range (atRange document (createNoSourceImage document) r') = r')"
proof -
  have pass: "\<exists>problems. snd (documentPass settings keywords document dockerfile) = Inr problems
       \<and> noSourceImages problems =
           noSourceImages (noSourceImageCheck document (getInstructions dockerfile) [])"
    by (simp add: documentPass_shape noSourceImages_instructions noSourceImages_parseDirective
          noSourceImageCheck_append [of document _ "snd (parseDirective dockerfile document [])"])
  have returned: "validate fuel toUpperCase settings keywords document dockerfile = Some r \<longrightarrow>
      (\<exists>out. r = Inr out \<and> noSourceImages out =
           noSourceImages (noSourceImageCheck document (getInstructions dockerfile) []))"
  proof
    assume "validate fuel toUpperCase settings keywords document dockerfile = Some r"
    from validate_addsTokens [OF this] obtain problems out where
      "snd (documentPass settings keywords document dockerfile) = Inr problems"
      "r = Inr out" "addsTokens document problems out"
      by blast
    with pass noSourceImages_tokens [of document problems out]
    show "\<exists>out. r = Inr out \<and> noSourceImages out =
           noSourceImages (noSourceImageCheck document (getInstructions dockerfile) [])"
      by auto
  qed
  have c: "code (createNoSourceImage document s e) = NO_SOURCE_IMAGE"
    "severity (createNoSourceImage document s e) = Error"
    for s e
    by (simp_all add: createNoSourceImage_def createError_def)
  have empty: "getInstructions dockerfile = [] \<longrightarrow>
      noSourceImages (noSourceImageCheck document (getInstructions dockerfile) [])
        = [createNoSourceImage document 0 0]"
    by (simp add: noSourceImageCheck_def noSourceImages_def c)
  have other: "getInstructions dockerfile = first # rest \<and> getKeyword first \<noteq> ''FROM'' \<longrightarrow>
      noSourceImages (noSourceImageCheck document (getInstructions dockerfile) [])
        = [atRange document (createNoSourceImage document) (getInstructionRange first)]"
    by (simp add: noSourceImageCheck_def noSourceImages_def c atRange_def)
  have ranges: "positionAt document 0 = \<lparr> line = 0, character = 0 \<rparr> \<longrightarrow>
        range (createNoSourceImage document 0 0) = rangeOf 0 0 0 0"
    "roundTrip document r' \<longrightarrow>
        range (atRange document (createNoSourceImage document) r') = r'"
    by (simp_all add: createNoSourceImage_def createError_def createDiagnostic_def rangeOf_def
          atRange_def roundTrip_def)
  have d: "noSourceImages out = filter (\<lambda>d. code d = NO_SOURCE_IMAGE) out"
    by (simp add: noSourceImages_def)
  from pass returned empty other have cases:
    "getInstructions dockerfile = [] \<longrightarrow>
      (\<exists>problems. snd (documentPass settings keywords document dockerfile) = Inr problems
         \<and> noSourceImages problems = [createNoSourceImage document 0 0])
      \<and> (validate fuel toUpperCase settings keywords document dockerfile = Some r \<longrightarrow>
           (\<exists>out. r = Inr out \<and> noSourceImages out = [createNoSourceImage document 0 0]))"
    "getInstructions dockerfile = first # rest \<and> getKeyword first \<noteq> ''FROM'' \<longrightarrow>
      (\<exists>problems. snd (documentPass settings keywords document dockerfile) = Inr problems
         \<and> noSourceImages problems =
             [atRange document (createNoSourceImage document) (getInstructionRange first)])
      \<and> (validate fuel toUpperCase settings keywords document dockerfile = Some r \<longrightarrow>
           (\<exists>out. r = Inr out \<and> noSourceImages out =
             [atRange document (createNoSourceImage document) (getInstructionRange first)]))"
    by metis+
  show ?thesis
    by (intro conjI) (fact cases d c ranges)+
qed

lemma no_source_image_returned_example:
  "getInstructions commentDockerfile = []
   \<and> validate 3 asciiUpperCase \<lparr> deprecatedMaintainer = WARNING \<rparr> [''FROM'', ''EXPOSE''] commentDocument
        commentDockerfile = Some (Inr [createNoSourceImage commentDocument 0 0])
   \<and> noSourceImages [createNoSourceImage commentDocument 0 0]
       = [createNoSourceImage commentDocument 0 0]
   \<and> positionAt commentDocument 0 = \<lparr> line = 0, character = 0 \<rparr>
   \<and> range (createNoSourceImage commentDocument 0 0) = rangeOf 0 0 0 0
   \<and> getInstructions exposeDockerfile = exposeTwo # []
   \<and> getKeyword exposeTwo \<noteq> ''FROM''
   \<and> roundTrip exposeTwoDocument (getInstructionRange exposeTwo)
   \<and> validate 3 asciiUpperCase \<lparr> deprecatedMaintainer = WARNING \<rparr> [''FROM'', ''EXPOSE''] exposeTwoDocument
        exposeDockerfile
       = Some (Inr [createNoSourceImage exposeTwoDocument 0 6,
                    createInvalidPort exposeTwoDocument 12 15 ''-80''])
   \<and> noSourceImages [createNoSourceImage exposeTwoDocument 0 6,
                      createInvalidPort exposeTwoDocument 12 15 ''-80'']
       = [createNoSourceImage exposeTwoDocument 0 6]
   \<and> range (createNoSourceImage exposeTwoDocument 0 6) = getInstructionRange exposeTwo"
proof -
  have h1: "getInstructions commentDockerfile = []"
    "validate 3 asciiUpperCase \<lparr> deprecatedMaintainer = WARNING \<rparr> [''FROM'', ''EXPOSE''] commentDocument
        commentDockerfile = Some (Inr [createNoSourceImage commentDocument 0 0])"
    "positionAt commentDocument 0 = \<lparr> line = 0, character = 0 \<rparr>"
    by code_simp+
  have h2: "getInstructions exposeDockerfile = exposeTwo # []"
    "getKeyword exposeTwo \<noteq> ''FROM''"
    "roundTrip exposeTwoDocument (getInstructionRange exposeTwo)"
    by (simp add: exposeDockerfile_def) code_simp+
  have v2: "validate 3 asciiUpperCase \<lparr> deprecatedMaintainer = WARNING \<rparr> [''FROM'', ''EXPOSE''] exposeTwoDocument
        exposeDockerfile
       = Some (Inr [createNoSourceImage exposeTwoDocument 0 6,
                    createInvalidPort exposeTwoDocument 12 15 ''-80''])"
    by code_simp
  have ev: "atRange exposeTwoDocument (createNoSourceImage exposeTwoDocument)
      (getInstructionRange exposeTwo) = createNoSourceImage exposeTwoDocument 0 6"
    by code_simp
  note t1 = no_source_image_returned [of commentDockerfile "\<lparr> deprecatedMaintainer = WARNING \<rparr>"
      "[''FROM'', ''EXPOSE'']" commentDocument 3 asciiUpperCase
      "Inr [createNoSourceImage commentDocument 0 0]" _ _ "[]"]
  note t2 = no_source_image_returned [of exposeDockerfile "\<lparr> deprecatedMaintainer = WARNING \<rparr>"
      "[''FROM'', ''EXPOSE'']" exposeTwoDocument 3 asciiUpperCase
      "Inr [createNoSourceImage exposeTwoDocument 0 6,
            createInvalidPort exposeTwoDocument 12 15 ''-80'']"
      exposeTwo "[]" "[]" _ _ "getInstructionRange exposeTwo"]
  have c1: "noSourceImages [createNoSourceImage commentDocument 0 0]
       = [createNoSourceImage commentDocument 0 0]"
    using t1 h1 by simp
  have c2: "range (createNoSourceImage commentDocument 0 0) = rangeOf 0 0 0 0"
    using t1 h1(3) by simp
  have c3: "noSourceImages [createNoSourceImage exposeTwoDocument 0 6,
                      createInvalidPort exposeTwoDocument 12 15 ''-80'']
       = [createNoSourceImage exposeTwoDocument 0 6]"
    using t2 h2 v2 by (simp add: ev)
  have c4: "range (createNoSourceImage exposeTwoDocument 0 6) = getInstructionRange exposeTwo"
    using t2 h2(3) by (simp add: ev)
  show ?thesis
    by (intro conjI) (fact h1 h2 v2 c1 c2 c3 c4)+
qed

section \<open>An array that is cut off\<close>

lemma length_loopText: "length loopText = 9"
  by (simp add: loopText_def)

text \<open>
  The text of a space and \<open>VOLUME [\<close>: the array is opened at the end of the text.
  \<open>parseJSON\<close> has seen no character, reports the token at the offset \<open>-1\<close> of \<open>last\<close>
  and returns \<open>last + 1\<close>, which is 0; the scan goes on at the offset 1 and comes to
  the same place again.
\<close>

lemma scanLine_cut_array:
  "scanLine asciiUpperCase document keywords [BACKSLASH] loopText 1 problems
     = Continue 0 (problems @ [createUnexpectedToken document (-1) 0])"
  by code_simp

lemma lineCheck_loops_from_word:
  "lineCheck fuel asciiUpperCase document keywords [BACKSLASH] loopText 1 problems = None"
proof (induction fuel arbitrary: problems)
  case 0
  show ?case by simp
next
  case (Suc fuel)
  have "lineCheck (Suc fuel) asciiUpperCase document keywords [BACKSLASH] loopText 1 problems
      = lineCheck fuel asciiUpperCase document keywords [BACKSLASH] loopText (0 + 1)
          (problems @ [createUnexpectedToken document (-1) 0])"
    by (simp add: scanLine_cut_array length_loopText)
  with Suc.IH show ?case by simp
qed

text \<open>The scan of the lines never ends on this text, whatever the fuel.\<close>

lemma lineCheck_loops:
  "lineCheck fuel asciiUpperCase document keywords [BACKSLASH] loopText 0 problems = None"
proof (cases fuel)
  case 0
  then show ?thesis by simp
next
  case (Suc n)
  have "scanLine asciiUpperCase document keywords [BACKSLASH] loopText 0 problems
          = Continue 0 problems"
    by code_simp
  with Suc show ?thesis
    using lineCheck_loops_from_word [of n document "keywords" "problems"]
    by (simp add: length_loopText)
qed

text \<open>
  C5.  For every document whose list of instructions is not empty and whose first
  instruction is not a FROM, the output of \<open>validate\<close> holds exactly one NO_SOURCE_IMAGE
  diagnostic.  The code gives no output for the document of a space and \<open>VOLUME [\<close>,
  whose one instruction is the VOLUME that the parser finds in it: with whatever
  settings, whitelist and conversions of the document, the pass over the instructions
  ends, and the scan of the lines after it does not, for any number of steps.
\<close>

theorem validate_never_returns:
  "getText \<lparr> getText = loopText, positionAt = p, offsetAt = q \<rparr> = '' VOLUME [''
   \<and> map getKeyword (getInstructions loopDockerfile) = [''VOLUME'']
   \<and> validate fuel asciiUpperCase settings keywords
        \<lparr> getText = loopText, positionAt = p, offsetAt = q \<rparr> loopDockerfile = None"
proof -
  have t: "getText \<lparr> getText = loopText, positionAt = p, offsetAt = q \<rparr> = '' VOLUME [''"
    by (simp add: loopText_def)
  have k: "map getKeyword (getInstructions loopDockerfile) = [''VOLUME'']"
    by (simp add: loopDockerfile_def)
  have d: "getDirective loopDockerfile = None"
    by (simp add: loopDockerfile_def)
  have v: "validate fuel asciiUpperCase settings keywords
        \<lparr> getText = loopText, positionAt = p, offsetAt = q \<rparr> loopDockerfile = None"
    by (simp add: validate_def documentPass_def parseDirective_def d instructionLoop_shape
          lineCheck_loops)
  show ?thesis
    by (intro conjI) (fact t k v)+
qed

section \<open>The scan of the lines: an unknown word\<close>









section \<open>The ranges of the diagnostics\<close>

lemma positionLe_refl: "positionLe p p"
  by (simp add: positionLe_def)

lemma positionLe_trans: "positionLe p q \<Longrightarrow> positionLe q r \<Longrightarrow> positionLe p r"
  by (auto simp: positionLe_def)

lemma inDocument_iff:
  "inDocument document p \<longleftrightarrow>
     (\<exists>offset. 0 \<le> offset \<and> offset \<le> int (length (getText document))
          \<and> positionAt document offset = p)"
  by (auto simp: inDocument_def)

lemma inDocument_positionAt:
  assumes "clampsOffsets document"
  shows "inDocument document (positionAt document a)"
proof -
  from assms have "positionAt document a
      = positionAt document (clampOffset (getText document) a)"
    by (simp add: clampsOffsets_def)
  moreover have "0 \<le> clampOffset (getText document) a"
    "clampOffset (getText document) a \<le> int (length (getText document))"
    by (simp_all add: clampOffset_def)
  ultimately show ?thesis
    unfolding inDocument_iff by metis
qed

lemma wellRanged_createDiagnostic:
  assumes "clampsOffsets document" and "keepsOrder document" and "s \<le> e"
  shows "wellRanged document (createDiagnostic document sev s e m c)"
  using assms inDocument_positionAt [OF assms(1)]
  by (simp add: wellRanged_def createDiagnostic_def keepsOrder_def)

lemma wellRanged_atRange:
  assumes "clampsOffsets document" and "keepsOrder document" and "orderedRange document r"
  shows "wellRanged document
           (createDiagnostic document sev (offsetAt document (range_start r))
              (offsetAt document (range_end r)) m c)"
  using assms by (simp add: wellRanged_createDiagnostic orderedRange_def)

lemma wellRanged_parseDirective:
  assumes "clampsOffsets document" and "keepsOrder document"
    and "orderedRanges document dockerfile"
    and "d \<in> set (snd (parseDirective dockerfile document []))"
  shows "wellRanged document d"
proof (cases "getDirective dockerfile")
  case None
  with assms(4) show ?thesis by (simp add: parseDirective_def)
next
  case (Some directive)
  with assms(3) have o: "orderedRange document (dir_nameRange directive)"
    "orderedRange document (dir_valueRange directive)"
    by (simp_all add: orderedRanges_def)
  from assms(4) Some show ?thesis
    using wellRanged_atRange [OF assms(1,2) o(1)] wellRanged_atRange [OF assms(1,2) o(2)]
    by (auto simp: parseDirective_def Let_def createUnknownDirective_def
          createInvalidEscapeDirective_def createError_def split: if_splits)
qed

lemma wellRanged_noSourceImageCheck:
  assumes "clampsOffsets document" and "keepsOrder document"
    and "\<forall>instruction \<in> set instructions.
           orderedRange document (getInstructionRange instruction)"
    and "d \<in> set (noSourceImageCheck document instructions [])"
  shows "wellRanged document d"
proof (cases instructions)
  case Nil
  with assms(4) show ?thesis
    using wellRanged_createDiagnostic [OF assms(1,2), of 0 0]
    by (simp add: noSourceImageCheck_def createNoSourceImage_def createError_def)
next
  case (Cons first rest)
  with assms(3) have "orderedRange document (getInstructionRange first)"
    by simp
  from wellRanged_atRange [OF assms(1,2) this] assms(4) Cons show ?thesis
    by (simp add: noSourceImageCheck_def createNoSourceImage_def createError_def
          split: if_splits)
qed

lemma wellRanged_arguments:
  assumes "clampsOffsets document" and "keepsOrder document"
    and "\<forall>arg \<in> set args. orderedRange document (arg_range arg)"
    and "d \<in> set (extraProblems document args) \<union> set (stopSignalProblems document args)
             \<union> set (portProblems document args)"
  shows "wellRanged document d"
  using assms(3,4) wellRanged_atRange [OF assms(1,2)]
  by (auto simp: extraProblems_def stopSignalProblems_def portProblems_def atRange_def
        createExtraArgument_def createInvalidStopSignal_def createInvalidPort_def
        createError_def
      split: if_splits list.splits)

lemma wellRanged_argumentProblems:
  assumes "clampsOffsets document" and "keepsOrder document"
    and "\<forall>arg \<in> set (getArgments instruction esc). orderedRange document (arg_range arg)"
    and "d \<in> set (argumentProblems document esc instruction)"
  shows "wellRanged document d"
proof -
  from assms(4) have "d \<in> set (extraProblems document (getArgments instruction esc))
      \<union> set (stopSignalProblems document (getArgments instruction esc))
      \<union> set (portProblems document (getArgments instruction esc))"
    by (auto simp: argumentProblems_def split: if_splits)
  then show ?thesis
    by (rule wellRanged_arguments [OF assms(1,2,3)])
qed

lemma wellRanged_instructionProblems:
  assumes "clampsOffsets document" and "keepsOrder document"
    and "orderedRange document (getInstructionRange instruction)"
    and "\<forall>arg \<in> set (getArgments instruction esc). orderedRange document (arg_range arg)"
    and "d \<in> set (instructionProblems settings keywords document esc instruction)"
  shows "wellRanged document d"
proof -
  note r = wellRanged_atRange [OF assms(1,2,3)]
  note m = wellRanged_createDiagnostic [OF assms(1,2) order_refl]
  note a = wellRanged_argumentProblems [OF assms(1,2,4)]
  from assms(5) show ?thesis
    by (auto simp: instructionProblems_def maintainerProblems_eq atRange_def
          createUnknownInstruction_def createUppercaseInstruction_def
          createMissingArgument_def createError_def createWarning_def r m a
        split: if_splits)
qed

lemma wellRanged_tokens:
  assumes "clampsOffsets document" and "keepsOrder document"
    and "addsTokens document problems out"
    and "\<forall>d \<in> set problems. wellRanged document d"
  shows "\<forall>d \<in> set out. wellRanged document d"
proof -
  from assms(3) obtain ds where ds: "out = problems @ ds"
    "\<forall>d \<in> set ds. \<exists>s. d = createUnexpectedToken document s (s + 1)"
    by (auto simp: addsTokens_def)
  have "wellRanged document (createUnexpectedToken document s (s + 1))" for s
    using wellRanged_createDiagnostic [OF assms(1,2), of s "s + 1"]
    by (simp add: createUnexpectedToken_def createError_def)
  with ds(2) have "\<forall>d \<in> set ds. wellRanged document d"
    by auto
  with ds(1) assms(4) show ?thesis
    by auto
qed

lemma wellRanged_documentPass:
  assumes "clampsOffsets document" and "keepsOrder document"
    and "orderedRanges document dockerfile"
    and "snd (documentPass settings keywords document dockerfile) = Inr problems"
  shows "\<forall>d \<in> set problems. wellRanged document d"
proof
  fix d
  assume d: "d \<in> set problems"
  define esc where "esc = escape (fst (parseDirective dockerfile document []))"
  from assms(3) have i: "\<forall>instruction \<in> set (getInstructions dockerfile).
           orderedRange document (getInstructionRange instruction)"
    and a: "\<forall>instruction \<in> set (getInstructions dockerfile).
           \<forall>arg \<in> set (getArgments instruction esc). orderedRange document (arg_range arg)"
    by (simp_all add: orderedRanges_def esc_def)
  from assms(4) have "problems =
      snd (parseDirective dockerfile document [])
      @ noSourceImageCheck document (getInstructions dockerfile) []
      @ concat (map (instructionProblems settings keywords document esc)
                  (getInstructions dockerfile))"
    using noSourceImageCheck_append [of document "getInstructions dockerfile"
        "snd (parseDirective dockerfile document [])"]
    by (simp add: documentPass_shape esc_def)
  with d consider "d \<in> set (snd (parseDirective dockerfile document []))"
    | "d \<in> set (noSourceImageCheck document (getInstructions dockerfile) [])"
    | instruction where "instruction \<in> set (getInstructions dockerfile)"
        "d \<in> set (instructionProblems settings keywords document esc instruction)"
    by auto
  then show "wellRanged document d"
  proof cases
    case 1
    then show ?thesis by (rule wellRanged_parseDirective [OF assms(1,2,3)])
  next
    case 2
    then show ?thesis by (rule wellRanged_noSourceImageCheck [OF assms(1,2) i])
  next
    case 3
    with i a show ?thesis
      using wellRanged_instructionProblems [OF assms(1,2)] by blast
  qed
qed

text \<open>The conversions of the documents of the examples.\<close>

lemma positionFrom_end:
  "positionFrom p tx n = positionFrom p tx (min n (length tx))"
  by (induction p tx n rule: positionFrom.induct) simp_all

lemma clampsOffsets_textDocument: "clampsOffsets (textDocument tx)"
proof -
  have "nat (clampOffset tx a) = min (nat a) (length tx)" for a
    by (simp add: clampOffset_def)
  then show ?thesis
    using positionFrom_end [of _ tx]
    by (simp add: clampsOffsets_def textDocument_def)
qed

lemma positionFrom_ge: "positionLe p (positionFrom p tx n)"
proof (induction p tx n rule: positionFrom.induct)
  case (3 p c cs n)
  show ?case
  proof (cases "c = LF \<or> (c = CR \<and> take 1 cs \<noteq> [LF])")
    case True
    then have step: "positionFrom p (c # cs) (Suc n)
        = positionFrom \<lparr> line = line p + 1, character = 0 \<rparr> cs n"
      by simp
    have "positionLe p \<lparr> line = line p + 1, character = 0 \<rparr>"
      by (simp add: positionLe_def)
    then show ?thesis
      unfolding step by (rule positionLe_trans [OF _ "3.IH"(1) [OF True]])
  next
    case False
    then have step: "positionFrom p (c # cs) (Suc n)
        = positionFrom \<lparr> line = line p, character = character p + 1 \<rparr> cs n"
      by auto
    have "positionLe p \<lparr> line = line p, character = character p + 1 \<rparr>"
      by (simp add: positionLe_def)
    then show ?thesis
      unfolding step by (rule positionLe_trans [OF _ "3.IH"(2) [OF False]])
  qed
qed (simp_all add: positionLe_refl)

lemma positionFrom_mono:
  "n \<le> m \<Longrightarrow> positionLe (positionFrom p tx n) (positionFrom p tx m)"
proof (induction p tx n arbitrary: m rule: positionFrom.induct)
  case (1 p tx)
  show ?case by (simp add: positionFrom_ge)
next
  case (2 p n)
  then show ?case by (cases m) (simp_all add: positionLe_refl)
next
  case (3 p c cs n)
  from "3.prems" obtain m' where m: "m = Suc m'" "n \<le> m'"
    by (cases m) simp_all
  show ?case
  proof (cases "c = LF \<or> (c = CR \<and> take 1 cs \<noteq> [LF])")
    case True
    then have step: "positionFrom p (c # cs) (Suc k)
        = positionFrom \<lparr> line = line p + 1, character = 0 \<rparr> cs k" for k
      by simp
    show ?thesis
      unfolding m(1) step by (rule "3.IH"(1) [OF True m(2)])
  next
    case False
    then have step: "positionFrom p (c # cs) (Suc k)
        = positionFrom \<lparr> line = line p, character = character p + 1 \<rparr> cs k" for k
      by auto
    show ?thesis
      unfolding m(1) step by (rule "3.IH"(2) [OF False m(2)])
  qed
qed

lemma keepsOrder_textDocument: "keepsOrder (textDocument tx)"
  by (simp add: keepsOrder_def textDocument_def positionFrom_mono nat_mono)

text \<open>
  C9.  Every diagnostic of a list that \<open>validate\<close> returns has a range whose start is
  not behind its end, in the order of the lines and then of the characters, and whose
  start and end are positions of offsets of the document, from 0 to the length of its
  text.  This holds for a document whose \<open>positionAt\<close> takes an offset outside the text
  as the nearest end of the text and keeps the order of the offsets, as the text document
  of the editor protocol library does, and for a parser whose ranges do not start at an
  offset behind the offset of their end.  The UNEXPECTED_TOKEN that \<open>parseJSON\<close> builds
  from \<open>last\<close> before a character is recorded has the offsets \<open>-1\<close> and 0: both ends
  of its range are the position of the offset 0.
\<close>

theorem validate_ranges:
  assumes "clampsOffsets document" and "keepsOrder document"
    and "orderedRanges document dockerfile"
    and "validate fuel toUpperCase settings keywords document dockerfile = Some r"
  shows
    "(\<exists>out. r = Inr out
        \<and> (\<forall>d \<in> set out.
              positionLe (range_start (range d)) (range_end (range d))
              \<and> inDocument document (range_start (range d))
              \<and> inDocument document (range_end (range d))))
     \<and> range (createUnexpectedToken document (- 1) 0)
         = \<lparr> range_start = positionAt document 0, range_end = positionAt document 0 \<rparr>
     \<and> (positionLe p q \<longleftrightarrow>
          line p < line q \<or> (line p = line q \<and> character p \<le> character q))
     \<and> (inDocument document p \<longleftrightarrow>
          (\<exists>offset. 0 \<le> offset \<and> offset \<le> int (length (getText document))
               \<and> positionAt document offset = p))"
proof -
  from validate_addsTokens [OF assms(4)] obtain problems out where
    o: "snd (documentPass settings keywords document dockerfile) = Inr problems"
    "r = Inr out" "addsTokens document problems out"
    by blast
  from wellRanged_documentPass [OF assms(1,2,3) o(1)]
  have "\<forall>d \<in> set out. wellRanged document d"
    by (rule wellRanged_tokens [OF assms(1,2) o(3)])
  with o(2) have returned: "\<exists>out. r = Inr out
        \<and> (\<forall>d \<in> set out.
              positionLe (range_start (range d)) (range_end (range d))
              \<and> inDocument document (range_start (range d))
              \<and> inDocument document (range_end (range d)))"
    by (simp add: wellRanged_def)
  have "clampOffset (getText document) (- 1) = 0"
    by (simp add: clampOffset_def)
  with assms(1) have "positionAt document (- 1) = positionAt document 0"
    unfolding clampsOffsets_def by metis
  then have token: "range (createUnexpectedToken document (- 1) 0)
         = \<lparr> range_start = positionAt document 0, range_end = positionAt document 0 \<rparr>"
    by (simp add: createUnexpectedToken_def createError_def createDiagnostic_def)
  note le = positionLe_def [of p q]
  note inside = inDocument_iff [of document p]
  show ?thesis
    by (intro conjI) (fact returned token le inside)+
qed

theorem validate_ranges_witness:
  "clampsOffsets (textDocument cutArrayText)
   \<and> keepsOrder (textDocument cutArrayText)
   \<and> orderedRanges (textDocument cutArrayText) cutArrayDockerfile
   \<and> validate 5 asciiUpperCase \<lparr> deprecatedMaintainer = WARNING \<rparr> [''FROM'', ''VOLUME'']
        (textDocument cutArrayText) cutArrayDockerfile
       = Some (Inr [createUnexpectedToken (textDocument cutArrayText) (- 1) 0])
   \<and> range (createUnexpectedToken (textDocument cutArrayText) (- 1) 0) = rangeOf 0 0 0 0
   \<and> positionLe \<lparr> line = 0, character = 0 \<rparr> \<lparr> line = 0, character = 0 \<rparr>
   \<and> inDocument (textDocument cutArrayText) \<lparr> line = 0, character = 0 \<rparr>
   \<and> orderedRanges unknownWordDocument unknownWordDockerfile
   \<and> validate 5 asciiUpperCase \<lparr> deprecatedMaintainer = WARNING \<rparr> [''FROM'', ''VOLUME'']
        unknownWordDocument unknownWordDockerfile
       = Some (Inr [createNoSourceImage unknownWordDocument 0 3,
                    createUnknownInstruction unknownWordDocument 0 3 ''FOO'',
                    createUnexpectedToken unknownWordDocument 14 15])
   \<and> positionLe \<lparr> line = 1, character = 8 \<rparr> \<lparr> line = 1, character = 9 \<rparr>
   \<and> inDocument unknownWordDocument \<lparr> line = 1, character = 8 \<rparr>
   \<and> inDocument unknownWordDocument \<lparr> line = 1, character = 9 \<rparr>"
proof -
  have h: "clampsOffsets (textDocument cutArrayText)"
    "keepsOrder (textDocument cutArrayText)"
    by (rule clampsOffsets_textDocument keepsOrder_textDocument)+
  have g: "clampsOffsets unknownWordDocument" "keepsOrder unknownWordDocument"
    unfolding unknownWordDocument_def
    by (rule clampsOffsets_textDocument keepsOrder_textDocument)+
  have o: "orderedRanges (textDocument cutArrayText) cutArrayDockerfile"
    "orderedRanges unknownWordDocument unknownWordDockerfile"
    by code_simp+
  have v: "validate 5 asciiUpperCase \<lparr> deprecatedMaintainer = WARNING \<rparr> [''FROM'', ''VOLUME'']
        (textDocument cutArrayText) cutArrayDockerfile
       = Some (Inr [createUnexpectedToken (textDocument cutArrayText) (- 1) 0])"
    by code_simp
  have w: "validate 5 asciiUpperCase \<lparr> deprecatedMaintainer = WARNING \<rparr> [''FROM'', ''VOLUME'']
        unknownWordDocument unknownWordDockerfile
       = Some (Inr [createNoSourceImage unknownWordDocument 0 3,
                    createUnknownInstruction unknownWordDocument 0 3 ''FOO'',
                    createUnexpectedToken unknownWordDocument 14 15])"
    by code_simp
  have ev: "positionAt (textDocument cutArrayText) 0 = \<lparr> line = 0, character = 0 \<rparr>"
    "range (createUnexpectedToken unknownWordDocument 14 15) = rangeOf 1 8 1 9"
    by code_simp+
  note t = validate_ranges [OF h(1) h(2) o(1) v]
  note u = validate_ranges [OF g(1) g(2) o(2) w]
  have c1: "range (createUnexpectedToken (textDocument cutArrayText) (- 1) 0)
      = rangeOf 0 0 0 0"
    using t [THEN conjunct2, THEN conjunct1] by (simp add: ev rangeOf_def)
  have c2: "positionLe \<lparr> line = 0, character = 0 \<rparr> \<lparr> line = 0, character = 0 \<rparr>"
    "inDocument (textDocument cutArrayText) \<lparr> line = 0, character = 0 \<rparr>"
    using t [THEN conjunct1] by (simp_all add: c1 rangeOf_def)
  have c3: "positionLe \<lparr> line = 1, character = 8 \<rparr> \<lparr> line = 1, character = 9 \<rparr>"
    "inDocument unknownWordDocument \<lparr> line = 1, character = 8 \<rparr>"
    "inDocument unknownWordDocument \<lparr> line = 1, character = 9 \<rparr>"
    using u [THEN conjunct1] by (simp_all add: ev rangeOf_def)
  show ?thesis
    by (intro conjI) (fact h o v w c1 c2 c3)+
qed

end
